theory Spec2Isabelle
  imports Complex_Main "HOL-Library.AList" "HOL-Library.Monad_Syntax" "HOL-Library.Log_Nat"
begin

section \<open>Python values, dictionaries and exceptions\<close>

text \<open>
  The handlers of \<^verbatim>\<open>main.py\<close> either return a value or raise. Every exception class
  that the modelled code can raise is a constructor; \<open>HTTPException\<close> carries the status
  code and the detail string of the \<^verbatim>\<open>raise HTTPException(...)\<close> statements.
  \<open>StoreUnavailable\<close> stands for whatever the driver raises when the document store
  cannot be reached.
\<close>

datatype error =
    HTTPException nat string
  | ValidationError
  | TypeError
  | ValueError
  | OverflowError
  | InvalidId
  | StoreUnavailable

text \<open>
  A value of type \<^verbatim>\<open>Any\<close> as it arrives in a decoded JSON body. The type \<open>'f\<close> is the
  host's \<^verbatim>\<open>float\<close>; Python's \<^verbatim>\<open>int\<close> is unbounded, hence \<open>int\<close>.
  A \<^verbatim>\<open>dict\<close> keeps insertion order, so it is an association list: \<open>map_of\<close> reads a
  key and \<open>AList.update\<close> is \<^verbatim>\<open>d[k] = v\<close> (in place for a present key, appended
  for a new one).
\<close>

datatype 'f pyval =
    PNone
  | PBool bool
  | PInt int
  | PFloat 'f
  | PStr string
  | PList "'f pyval list"
  | PDict "(string \<times> 'f pyval) list"

type_synonym 'f pydict = "(string \<times> 'f pyval) list"

definition dict_get :: "'f pydict \<Rightarrow> string \<Rightarrow> 'f pyval \<Rightarrow> 'f pyval" where
  \<comment> \<open>\<^verbatim>\<open>d.get(k, default)\<close>\<close>
  "dict_get d k dflt = (case map_of d k of None \<Rightarrow> dflt | Some v \<Rightarrow> v)"

definition truthy :: "string option \<Rightarrow> bool" where
  \<comment> \<open>\<^verbatim>\<open>if s:\<close> for an \<^verbatim>\<open>Optional[str]\<close>: neither \<^verbatim>\<open>None\<close> nor the empty string\<close>
  "truthy s = (case s of None \<Rightarrow> False | Some t \<Rightarrow> t \<noteq> [])"

section \<open>Schemas (\<^verbatim>\<open>schemas.py\<close>)\<close>

record 'f CartItem =
  product_id :: string
  quantity :: int
  price :: 'f
  title :: "string option"
  variant :: "(string \<times> string) list option"
  image' :: "string option"

record Address =
  full_name :: string
  line1 :: string
  line2 :: "string option"
  city :: string
  state :: string
  postal_code :: string
  country :: string
  phone :: "string option"

record 'f Order =
  user_id :: "string option"
  items :: "'f CartItem list"
  subtotal :: 'f
  shipping :: 'f
  total :: 'f
  status :: string
  payment_method :: string
  payment_status :: string
  transaction_id :: "string option"
  shipping_address :: Address
  email :: "string option"

section \<open>The document store\<close>

text \<open>
  A stored document is its \<^verbatim>\<open>_id\<close> (an ObjectId, kept as its 24-digit hex string, which
  is what \<^verbatim>\<open>str\<close> returns for it) together with its other fields. The handle \<^verbatim>\<open>db\<close>
  of \<^verbatim>\<open>main.py\<close> is \<^verbatim>\<open>None\<close> when no store is configured: it is a
  \<open>database option\<close>. A configured store may still be unreachable (\<open>db_online\<close>).
\<close>

type_synonym 'f document = "string \<times> 'f pydict"

record 'f database =
  db_online :: bool
  db_product :: "'f document list"
  db_order :: "(string \<times> 'f Order) list"

section \<open>The host: Python's float, pydantic's coercions, bson\<close>

text \<open>
  What the handlers call but do not define is a parameter of the model:
  the float arithmetic of the interpreter, the string parsers behind \<^verbatim>\<open>float()\<close> and
  \<^verbatim>\<open>int()\<close>, the coercions pydantic applies to a field of type \<^verbatim>\<open>str\<close>,
  \<^verbatim>\<open>int\<close>, \<^verbatim>\<open>float\<close> and \<^verbatim>\<open>EmailStr\<close>, the parser of
  \<^verbatim>\<open>bson.ObjectId\<close> and the identifier the store gives a new document.
\<close>

record 'f host =
  fzero :: 'f
    \<comment> \<open>the literal \<^verbatim>\<open>0.0\<close>\<close>
  float_of_int :: "int \<Rightarrow> 'f option"
    \<comment> \<open>int to float; \<open>None\<close> is \<^verbatim>\<open>OverflowError: int too large to convert to float\<close>\<close>
  float_of_str :: "string \<Rightarrow> 'f option"
    \<comment> \<open>\<^verbatim>\<open>float(s)\<close>; \<open>None\<close> is \<^verbatim>\<open>ValueError\<close>\<close>
  int_of_float :: "'f \<Rightarrow> int option"
    \<comment> \<open>\<^verbatim>\<open>int(x)\<close>: truncation; \<open>None\<close> on an infinity (\<^verbatim>\<open>OverflowError\<close>) and on a
        NaN (\<^verbatim>\<open>ValueError\<close>)\<close>
  fis_nan :: "'f \<Rightarrow> bool"
  int_of_str :: "string \<Rightarrow> int option"
    \<comment> \<open>\<^verbatim>\<open>int(s)\<close>; \<open>None\<close> is \<^verbatim>\<open>ValueError\<close>\<close>
  fmul :: "'f \<Rightarrow> 'f \<Rightarrow> 'f"
  fadd :: "'f \<Rightarrow> 'f \<Rightarrow> 'f"
  fsum :: "'f list \<Rightarrow> 'f"
    \<comment> \<open>the built-in \<^verbatim>\<open>sum\<close> on floats, from its start value \<^verbatim>\<open>0\<close>\<close>
  fround2 :: "'f \<Rightarrow> 'f"
    \<comment> \<open>\<^verbatim>\<open>round(x, 2)\<close>\<close>
  fge0 :: "'f \<Rightarrow> bool"
    \<comment> \<open>\<^verbatim>\<open>x >= 0\<close>\<close>
  as_str :: "'f pyval \<Rightarrow> string option"
  as_int :: "'f pyval \<Rightarrow> int option"
  as_float :: "'f pyval \<Rightarrow> 'f option"
  as_email :: "string \<Rightarrow> string option"
  ObjectId :: "string \<Rightarrow> string option"
    \<comment> \<open>\<^verbatim>\<open>ObjectId(s)\<close>; \<open>None\<close> is \<^verbatim>\<open>InvalidId\<close>\<close>
  new_object_id :: "'f database \<Rightarrow> string"

section \<open>Catalog (\<^verbatim>\<open>main.py\<close>, lines 106 to 140)\<close>

definition price_filter :: "'f option \<Rightarrow> 'f option \<Rightarrow> 'f pydict" where
  \<comment> \<open>lines 115 to 119; \<^verbatim>\<open>float(x)\<close> of a float is \<open>x\<close>\<close>
  "price_filter min_price max_price =
     (let pf = [];
          pf = (case min_price of None \<Rightarrow> pf
                | Some lo \<Rightarrow> AList.update ''$gte'' (PFloat lo) pf);
          pf = (case max_price of None \<Rightarrow> pf
                | Some hi \<Rightarrow> AList.update ''$lte'' (PFloat hi) pf)
      in pf)"

definition list_products_query ::
  "string option \<Rightarrow> string option \<Rightarrow> string option \<Rightarrow> string option \<Rightarrow>
   'f option \<Rightarrow> 'f option \<Rightarrow> 'f pydict" where
  \<comment> \<open>lines 110 to 125: the query handed to \<^verbatim>\<open>db.product.find\<close>\<close>
  "list_products_query q category size' color min_price max_price =
     (let query = [(''is_active'', PBool True)];
          query = (if truthy q
                   then AList.update ''title''
                          (PDict [(''$regex'', PStr (the q)), (''$options'', PStr ''i'')]) query
                   else query);
          query = (if truthy category
                   then AList.update ''category'' (PStr (the category)) query else query);
          pf = price_filter min_price max_price;
          query = (if pf \<noteq> [] then AList.update ''price'' (PDict pf) query else query);
          query = (if truthy size'
                   then AList.update ''variants.size'' (PStr (the size')) query else query);
          query = (if truthy color
                   then AList.update ''variants.color'' (PStr (the color)) query else query)
      in query)"

definition to_public :: "'f document \<Rightarrow> 'f pydict" where
  \<comment> \<open>\<^verbatim>\<open>doc["id"] = str(doc.pop("_id"))\<close>; a document read from the store is never empty\<close>
  "to_public doc = AList.update ''id'' (PStr (fst doc)) (snd doc)"

text \<open>
  Modelled from the spec: the store primitive \<^verbatim>\<open>findOne(collection, predicate)\<close> of the
  absent module \<^verbatim>\<open>database\<close>, for the predicate \<^verbatim>\<open>{"_id": oid}\<close> on the product
  collection. It returns the document or nothing, and raises when the store is unreachable.
\<close>

definition find_one :: "'f database \<Rightarrow> string \<Rightarrow> error + 'f document option" where
  "find_one db oid =
     (if db_online db then Inr (find (\<lambda>d. fst d = oid) (db_product db))
      else Inl StoreUnavailable)"

definition get_product ::
  "'f host \<Rightarrow> 'f database option \<Rightarrow> string \<Rightarrow> error + 'f pydict" where
  "get_product H db product_id' =
     (case db of
        None \<Rightarrow> Inl (HTTPException 404 ''Not found'')
      | Some store \<Rightarrow>
          (case (case ObjectId H product_id' of
                   None \<Rightarrow> Inl InvalidId
                 | Some oid \<Rightarrow> find_one store oid) of
             Inl _ \<Rightarrow> Inl (HTTPException 400 ''Invalid id'')
           | Inr None \<Rightarrow> Inl (HTTPException 404 ''Not found'')
           | Inr (Some doc) \<Rightarrow> Inr (to_public doc)))"

section \<open>Built-in conversions used by the checkout\<close>

fun py_float :: "'f host \<Rightarrow> 'f pyval \<Rightarrow> error + 'f" where
  \<comment> \<open>\<^verbatim>\<open>float(v)\<close>\<close>
  "py_float H PNone = Inl TypeError"
| "py_float H (PBool b) =
     (case float_of_int H (if b then 1 else 0) of
        None \<Rightarrow> Inl OverflowError | Some x \<Rightarrow> Inr x)"
| "py_float H (PInt n) =
     (case float_of_int H n of None \<Rightarrow> Inl OverflowError | Some x \<Rightarrow> Inr x)"
| "py_float H (PFloat x) = Inr x"
| "py_float H (PStr s) =
     (case float_of_str H s of None \<Rightarrow> Inl ValueError | Some x \<Rightarrow> Inr x)"
| "py_float H (PList _) = Inl TypeError"
| "py_float H (PDict _) = Inl TypeError"

fun py_int :: "'f host \<Rightarrow> 'f pyval \<Rightarrow> error + int" where
  \<comment> \<open>\<^verbatim>\<open>int(v)\<close>\<close>
  "py_int H PNone = Inl TypeError"
| "py_int H (PBool b) = Inr (if b then 1 else 0)"
| "py_int H (PInt n) = Inr n"
| "py_int H (PFloat x) =
     (case int_of_float H x of
        None \<Rightarrow> Inl (if fis_nan H x then ValueError else OverflowError)
      | Some n \<Rightarrow> Inr n)"
| "py_int H (PStr s) =
     (case int_of_str H s of None \<Rightarrow> Inl ValueError | Some n \<Rightarrow> Inr n)"
| "py_int H (PList _) = Inl TypeError"
| "py_int H (PDict _) = Inl TypeError"

definition mul_float_int :: "'f host \<Rightarrow> 'f \<Rightarrow> int \<Rightarrow> error + 'f" where
  \<comment> \<open>\<^verbatim>\<open>x * n\<close> for a float and an int: the int is converted first\<close>
  "mul_float_int H x n =
     (case float_of_int H n of
        None \<Rightarrow> Inl OverflowError
      | Some y \<Rightarrow> Inr (fmul H x y))"

section \<open>Schema validation (pydantic)\<close>

text \<open>
  Constructing a model validates every field and raises one \<^verbatim>\<open>ValidationError\<close> when
  any of them fails: the validators return an \<open>option\<close>. A required field must be
  present and coerce; a field declared \<^verbatim>\<open>Optional[T] = None\<close> may be absent or
  \<^verbatim>\<open>None\<close>; \<^verbatim>\<open>Field(..., ge=c)\<close> bounds the coerced value from below.
\<close>

definition req_field :: "('f pyval \<Rightarrow> 'a option) \<Rightarrow> 'f pydict \<Rightarrow> string \<Rightarrow> 'a option" where
  "req_field coerce d k = (case map_of d k of None \<Rightarrow> None | Some v \<Rightarrow> coerce v)"

definition opt_field ::
  "('f pyval \<Rightarrow> 'a option) \<Rightarrow> 'f pydict \<Rightarrow> string \<Rightarrow> 'a option option" where
  "opt_field coerce d k =
     (case map_of d k of
        None \<Rightarrow> Some None
      | Some PNone \<Rightarrow> Some None
      | Some v \<Rightarrow> (case coerce v of None \<Rightarrow> None | Some x \<Rightarrow> Some (Some x)))"

definition dflt_field ::
  "('f pyval \<Rightarrow> 'a option) \<Rightarrow> 'f pydict \<Rightarrow> string \<Rightarrow> 'a \<Rightarrow> 'a option" where
  "dflt_field coerce d k dflt = (case map_of d k of None \<Rightarrow> Some dflt | Some v \<Rightarrow> coerce v)"

definition as_str_dict :: "'f host \<Rightarrow> 'f pyval \<Rightarrow> (string \<times> string) list option" where
  \<comment> \<open>\<^verbatim>\<open>Dict[str, str]\<close>\<close>
  "as_str_dict H v =
     (case v of
        PDict kvs \<Rightarrow>
          (case those (map (\<lambda>kv. as_str H (snd kv)) kvs) of
             None \<Rightarrow> None
           | Some vs \<Rightarrow> Some (zip (map fst kvs) vs))
      | _ \<Rightarrow> None)"

definition CartItem_validate :: "'f host \<Rightarrow> 'f pydict \<Rightarrow> 'f CartItem option" where
  "CartItem_validate H d = do {
     pid \<leftarrow> req_field (as_str H) d ''product_id'';
     qty \<leftarrow> req_field (as_int H) d ''quantity'';
     pr \<leftarrow> req_field (as_float H) d ''price'';
     ti \<leftarrow> opt_field (as_str H) d ''title'';
     va \<leftarrow> opt_field (as_str_dict H) d ''variant'';
     im \<leftarrow> opt_field (as_str H) d ''image'';
     if 1 \<le> qty \<and> fge0 H pr
     then Some \<lparr>product_id = pid, quantity = qty, price = pr, title = ti,
                variant = va, image' = im\<rparr>
     else None
   }"

definition quantity_price_ok :: "'f host \<Rightarrow> 'f pydict \<Rightarrow> bool" where
  \<comment> \<open>the two constraints of \<^verbatim>\<open>CartItem\<close> on numbers: \<^verbatim>\<open>quantity: int = Field(..., ge=1)\<close>
      and \<^verbatim>\<open>price: float = Field(..., ge=0)\<close>\<close>
  "quantity_price_ok H d =
     (case (req_field (as_int H) d ''quantity'', req_field (as_float H) d ''price'') of
        (Some qty, Some pr) \<Rightarrow> 1 \<le> qty \<and> fge0 H pr
      | _ \<Rightarrow> False)"

definition Address_validate :: "'f host \<Rightarrow> 'f pydict \<Rightarrow> Address option" where
  "Address_validate H d = do {
     fn \<leftarrow> req_field (as_str H) d ''full_name'';
     l1 \<leftarrow> req_field (as_str H) d ''line1'';
     l2 \<leftarrow> opt_field (as_str H) d ''line2'';
     ci \<leftarrow> req_field (as_str H) d ''city'';
     st \<leftarrow> req_field (as_str H) d ''state'';
     pc \<leftarrow> req_field (as_str H) d ''postal_code'';
     co \<leftarrow> dflt_field (as_str H) d ''country'' ''US'';
     ph \<leftarrow> opt_field (as_str H) d ''phone'';
     Some \<lparr>full_name = fn, line1 = l1, line2 = l2, city = ci, state = st,
           postal_code = pc, country = co, phone = ph\<rparr>
   }"

definition opt_email :: "'f host \<Rightarrow> string option \<Rightarrow> string option option" where
  \<comment> \<open>\<^verbatim>\<open>Optional[EmailStr]\<close>\<close>
  "opt_email H em =
     (case em of
        None \<Rightarrow> Some None
      | Some e \<Rightarrow> (case as_email H e of None \<Rightarrow> None | Some e' \<Rightarrow> Some (Some e')))"

definition Order_validate ::
  "'f host \<Rightarrow> 'f pydict list \<Rightarrow> 'f \<Rightarrow> 'f \<Rightarrow> 'f \<Rightarrow> string \<Rightarrow> 'f pydict \<Rightarrow> string option \<Rightarrow>
   'f Order option" where
  \<comment> \<open>the constructor call of lines 201 to 210: \<^verbatim>\<open>user_id\<close> is \<^verbatim>\<open>None\<close>, and
      \<^verbatim>\<open>status\<close>, \<^verbatim>\<open>payment_status\<close> and \<^verbatim>\<open>transaction_id\<close> are not passed, so they
      take the defaults of the class\<close>
  "Order_validate H its sub ship tot pm addr em = do {
     cart \<leftarrow> those (map (CartItem_validate H) its);
     ad \<leftarrow> Address_validate H addr;
     em' \<leftarrow> opt_email H em;
     if fge0 H sub \<and> fge0 H tot \<and> (pm = ''stripe'' \<or> pm = ''cod'')
     then Some \<lparr>user_id = None, items = cart, subtotal = sub, shipping = ship, total = tot,
                status = ''pending'', payment_method = pm, payment_status = ''pending'',
                transaction_id = None, shipping_address = ad, email = em'\<rparr>
     else None
   }"

section \<open>Checkout (\<^verbatim>\<open>main.py\<close>, lines 187 to 221)\<close>

record 'f CheckoutPayload =
  payload_items :: "'f pydict list"
  payload_email :: "string option"
  payload_shipping_address :: "'f pydict"
  payload_payment_method :: string

record 'f CheckoutResponse =
  order_id :: string
  response_total :: 'f
  payment :: "(string \<times> string) list"

definition item_price :: "'f host \<Rightarrow> 'f pydict \<Rightarrow> error + 'f" where
  \<comment> \<open>\<^verbatim>\<open>float(i.get("price", 0))\<close>\<close>
  "item_price H i = py_float H (dict_get i ''price'' (PInt 0))"

definition item_quantity :: "'f host \<Rightarrow> 'f pydict \<Rightarrow> error + int" where
  \<comment> \<open>\<^verbatim>\<open>int(i.get("quantity", 1))\<close>\<close>
  "item_quantity H i = py_int H (dict_get i ''quantity'' (PInt 1))"

definition line_total :: "'f host \<Rightarrow> 'f pydict \<Rightarrow> error + 'f" where
  \<comment> \<open>\<^verbatim>\<open>float(i.get("price", 0)) * int(i.get("quantity", 1))\<close>, evaluated from left
      to right\<close>
  "line_total H i =
     (case item_price H i of
        Inl e \<Rightarrow> Inl e
      | Inr p \<Rightarrow>
          (case item_quantity H i of
             Inl e \<Rightarrow> Inl e
           | Inr n \<Rightarrow> mul_float_int H p n))"

fun line_totals :: "'f host \<Rightarrow> 'f pydict list \<Rightarrow> error + 'f list" where
  \<comment> \<open>the generator of line 197, consumed in order: the first exception ends it\<close>
  "line_totals H [] = Inr []"
| "line_totals H (i # rest) =
     (case line_total H i of
        Inl e \<Rightarrow> Inl e
      | Inr x \<Rightarrow>
          (case line_totals H rest of
             Inl e \<Rightarrow> Inl e
           | Inr xs \<Rightarrow> Inr (x # xs)))"

definition checkout_subtotal :: "'f host \<Rightarrow> 'f pydict list \<Rightarrow> error + 'f" where
  \<comment> \<open>line 197\<close>
  "checkout_subtotal H its =
     (case line_totals H its of Inl e \<Rightarrow> Inl e | Inr xs \<Rightarrow> Inr (fsum H xs))"

definition checkout_total :: "'f host \<Rightarrow> 'f \<Rightarrow> 'f" where
  \<comment> \<open>lines 198 and 199\<close>
  "checkout_total H sub = (let shipping = fzero H in fround2 H (fadd H sub shipping))"

text \<open>
  Modelled from the spec: \<^verbatim>\<open>create_document\<close> of the absent module \<^verbatim>\<open>database\<close>, the
  store primitive \<^verbatim>\<open>insert(collection, entity) -> internalId\<close> followed by the
  translation to the public identifier, here for the order collection. A storage failure
  is fatal to the request and writes nothing.
\<close>

definition create_document ::
  "'f host \<Rightarrow> 'f database option \<Rightarrow> 'f Order \<Rightarrow> (error + string) \<times> 'f database option" where
  "create_document H db new_order =
     (case db of
        None \<Rightarrow> (Inl StoreUnavailable, db)
      | Some store \<Rightarrow>
          if db_online store
          then (let new_id = new_object_id H store
                in (Inr new_id, Some (store\<lparr>db_order := db_order store @ [(new_id, new_order)]\<rparr>)))
          else (Inl StoreUnavailable, db))"

definition payment_stub :: "string \<Rightarrow> string \<Rightarrow> (string \<times> string) list" where
  \<comment> \<open>lines 214 to 219\<close>
  "payment_stub pm oid =
     (let payment = [(''method'', pm)]
      in if pm = ''stripe''
         then AList.update ''client_secret'' (''cs_test_'' @ take 8 oid)
                (AList.update ''status'' ''requires_action'' payment)
         else AList.update ''status'' ''pending'' payment)"

definition checkout ::
  "'f host \<Rightarrow> 'f database option \<Rightarrow> 'f CheckoutPayload \<Rightarrow>
   (error + 'f CheckoutResponse) \<times> 'f database option" where
  "checkout H db payload =
     (if payload_items payload = [] then (Inl (HTTPException 400 ''No items''), db)
      else
        case checkout_subtotal H (payload_items payload) of
          Inl e \<Rightarrow> (Inl e, db)
        | Inr sub \<Rightarrow>
            (let shipping = fzero H;
                 tot = checkout_total H sub
             in case Order_validate H (payload_items payload) sub shipping tot
                       (payload_payment_method payload) (payload_shipping_address payload)
                       (payload_email payload) of
                  None \<Rightarrow> (Inl ValidationError, db)
                | Some new_order \<Rightarrow>
                    (case create_document H db new_order of
                       (Inl e, db') \<Rightarrow> (Inl e, db')
                     | (Inr new_id, db') \<Rightarrow>
                         (Inr \<lparr>order_id = new_id, response_total = tot,
                               payment = payment_stub (payload_payment_method payload) new_id\<rparr>,
                          db'))))"

text \<open>
  The condition under which line 197 yields a subtotal, item by item.
\<close>

definition amounts_ok :: "'f host \<Rightarrow> 'f pydict \<Rightarrow> bool" where
  \<comment> \<open>as line 197 reads the item: \<^verbatim>\<open>float(price) >= 0\<close> and \<^verbatim>\<open>int(quantity) >= 1\<close>\<close>
  "amounts_ok H i =
     (case (item_price H i, item_quantity H i) of
        (Inr p, Inr n) \<Rightarrow> fge0 H p \<and> 1 \<le> n
      | _ \<Rightarrow> False)"

definition quantity_converts :: "'f host \<Rightarrow> 'f pydict \<Rightarrow> bool" where
  \<comment> \<open>the host can convert \<^verbatim>\<open>int(quantity)\<close> to a float, as the product requires\<close>
  "quantity_converts H i =
     (case item_quantity H i of
        Inr n \<Rightarrow> float_of_int H n \<noteq> None
      | Inl _ \<Rightarrow> False)"

section \<open>A reference host: CPython on IEEE 754 binary64\<close>

text \<open>
  The theorems below hold for every host. To run the handlers on concrete requests the
  host is instantiated: a \<^verbatim>\<open>float\<close> is an IEEE 754 binary64 number and every operation
  rounds its exact result to the nearest representable number, ties to even. A finite
  number is kept as the rational it denotes (\<open>Finite 0\<close> is \<^verbatim>\<open>0.0\<close>, \<open>NegZero\<close> is
  \<^verbatim>\<open>-0.0\<close>).
\<close>

datatype binary64 = Finite rat | NegZero | PosInf | NegInf | NaN

definition round_half_even :: "rat \<Rightarrow> int" where
  "round_half_even x =
     (let f = \<lfloor>x\<rfloor>; d = x - of_int f
      in if d < 1 / 2 then f else if 1 / 2 < d then f + 1 else if even f then f else f + 1)"

definition pow2 :: "int \<Rightarrow> rat" where
  "pow2 e = (if 0 \<le> e then 2 ^ nat e else 1 / 2 ^ nat (- e))"

definition ilog2 :: "rat \<Rightarrow> int" where
  \<comment> \<open>for \<open>0 < a\<close>, the \<open>k\<close> with \<open>pow2 k \<le> a < pow2 (k + 1)\<close>; the test
      \<open>pow2 k \<le> a\<close> is made on the numerator and the denominator\<close>
  "ilog2 a =
     (let (n, d) = quotient_of a; k = bitlen n - bitlen d
      in if (if 0 \<le> k then 2 ^ nat k * d \<le> n else d \<le> 2 ^ nat (- k) * n) then k else k - 1)"

definition round_b64 :: "bool \<Rightarrow> rat \<Rightarrow> binary64" where
  \<comment> \<open>the binary64 number nearest to \<open>a \<ge> 0\<close>, with sign \<open>neg\<close>: 53 significant bits,
      exponents from \<open>-1022\<close> (below it the spacing stays \<open>pow2 (-1074)\<close>) to \<open>1023\<close>
      (from \<open>pow2 1024\<close> on the result is an infinity)\<close>
  "round_b64 neg a =
     (if a = 0 then (if neg then NegZero else Finite 0)
      else
        let e = max (ilog2 a) (- 1022)
        in if 1024 \<le> e then (if neg then NegInf else PosInf)
           else
             let u = pow2 (e - 52);
                 m = round_half_even (a / u)
             in if m = 0 then (if neg then NegZero else Finite 0)
                else if e = 1023 \<and> 2 ^ 53 \<le> m then (if neg then NegInf else PosInf)
                else Finite (if neg then - (of_int m * u) else of_int m * u))"

definition b64 :: "rat \<Rightarrow> binary64" where
  \<comment> \<open>a decimal literal such as \<^verbatim>\<open>19.99\<close> denotes \<open>b64 (1999 / 100)\<close>\<close>
  "b64 q = round_b64 (q < 0) \<bar>q\<bar>"

fun sign_bit :: "binary64 \<Rightarrow> bool" where
  "sign_bit (Finite q) = (q < 0)"
| "sign_bit NegZero = True"
| "sign_bit PosInf = False"
| "sign_bit NegInf = True"
| "sign_bit NaN = False"

fun finite_value :: "binary64 \<Rightarrow> rat option" where
  "finite_value (Finite q) = Some q"
| "finite_value NegZero = Some 0"
| "finite_value _ = None"

definition b64_mul :: "binary64 \<Rightarrow> binary64 \<Rightarrow> binary64" where
  "b64_mul x y =
     (if x = NaN \<or> y = NaN then NaN
      else let neg = (sign_bit x \<noteq> sign_bit y)
           in case (finite_value x, finite_value y) of
                (Some a, Some b) \<Rightarrow> round_b64 neg \<bar>a * b\<bar>
              | (None, Some b) \<Rightarrow> if b = 0 then NaN else if neg then NegInf else PosInf
              | (Some a, None) \<Rightarrow> if a = 0 then NaN else if neg then NegInf else PosInf
              | (None, None) \<Rightarrow> if neg then NegInf else PosInf)"

definition b64_add :: "binary64 \<Rightarrow> binary64 \<Rightarrow> binary64" where
  "b64_add x y =
     (if x = NaN \<or> y = NaN then NaN
      else case (finite_value x, finite_value y) of
             (Some a, Some b) \<Rightarrow>
               if a + b = 0 then (if x = NegZero \<and> y = NegZero then NegZero else Finite 0)
               else b64 (a + b)
           | (None, Some b) \<Rightarrow> x
           | (Some a, None) \<Rightarrow> y
           | (None, None) \<Rightarrow> if x = y then x else NaN)"

definition b64_of_int :: "int \<Rightarrow> binary64 option" where
  "b64_of_int n =
     (case b64 (of_int n) of PosInf \<Rightarrow> None | NegInf \<Rightarrow> None | x \<Rightarrow> Some x)"

fun b64_to_int :: "binary64 \<Rightarrow> int option" where
  "b64_to_int (Finite q) = Some (if 0 \<le> q then \<lfloor>q\<rfloor> else \<lceil>q\<rceil>)"
| "b64_to_int NegZero = Some 0"
| "b64_to_int _ = None"

fun b64_round2 :: "binary64 \<Rightarrow> binary64" where
  \<comment> \<open>\<^verbatim>\<open>round(x, 2)\<close>: the exact value is rounded to two decimals, ties to even, and the
      resulting decimal is read back as a float\<close>
  "b64_round2 (Finite q) = round_b64 (q < 0) \<bar>of_int (round_half_even (q * 100)) / 100\<bar>"
| "b64_round2 x = x"

fun b64_ge0 :: "binary64 \<Rightarrow> bool" where
  "b64_ge0 (Finite q) = (0 \<le> q)"
| "b64_ge0 NegZero = True"
| "b64_ge0 PosInf = True"
| "b64_ge0 NegInf = False"
| "b64_ge0 NaN = False"

definition b64_sum :: "binary64 list \<Rightarrow> binary64" where
  \<comment> \<open>\<^verbatim>\<open>sum\<close> up to CPython 3.11: the items are added from left to right to the start
      value \<^verbatim>\<open>0\<close>\<close>
  "b64_sum xs = foldl b64_add (Finite 0) xs"

subsection \<open>Numerals in strings\<close>

text \<open>
  \<^verbatim>\<open>int(s)\<close> and \<^verbatim>\<open>float(s)\<close> for plain decimal numerals: surrounding blanks, a sign,
  digits and, for a float, a fraction after a point. The other spellings Python reads
  (exponents, underscores, \<^verbatim>\<open>inf\<close>, \<^verbatim>\<open>nan\<close>) are not used by any request below.
\<close>

definition is_digit :: "char \<Rightarrow> bool" where
  "is_digit c = (48 \<le> (of_char c :: nat) \<and> (of_char c :: nat) \<le> 57)"

definition is_blank :: "char \<Rightarrow> bool" where
  "is_blank c = ((of_char c :: nat) = 32 \<or> (9 \<le> (of_char c :: nat) \<and> (of_char c :: nat) \<le> 13))"

definition strip :: "string \<Rightarrow> string" where
  "strip s = rev (dropWhile is_blank (rev (dropWhile is_blank s)))"

definition digits_value :: "string \<Rightarrow> nat" where
  "digits_value s = foldl (\<lambda>acc c. 10 * acc + (of_char c - 48)) 0 s"

definition unsigned_int :: "string \<Rightarrow> nat option" where
  "unsigned_int s = (if s \<noteq> [] \<and> list_all is_digit s then Some (digits_value s) else None)"

definition unsigned_decimal :: "string \<Rightarrow> rat option" where
  "unsigned_decimal s =
     (let ip = takeWhile (\<lambda>c. c \<noteq> CHR ''.'') s;
          fp = drop 1 (dropWhile (\<lambda>c. c \<noteq> CHR ''.'') s)
      in if (ip \<noteq> [] \<or> fp \<noteq> []) \<and> list_all is_digit ip \<and> list_all is_digit fp
         then Some (of_nat (digits_value (ip @ fp)) / 10 ^ length fp)
         else None)"

definition parse_int :: "string \<Rightarrow> int option" where
  "parse_int s =
     (case strip s of
        [] \<Rightarrow> None
      | c # r \<Rightarrow>
          if c = CHR ''-'' then map_option (\<lambda>n. - int n) (unsigned_int r)
          else if c = CHR ''+'' then map_option int (unsigned_int r)
          else map_option int (unsigned_int (c # r)))"

definition parse_float :: "string \<Rightarrow> binary64 option" where
  "parse_float s =
     (case strip s of
        [] \<Rightarrow> None
      | c # r \<Rightarrow>
          if c = CHR ''-'' then map_option (round_b64 True) (unsigned_decimal r)
          else if c = CHR ''+'' then map_option (round_b64 False) (unsigned_decimal r)
          else map_option (round_b64 False) (unsigned_decimal (c # r)))"

subsection \<open>Field coercions, identifiers\<close>

text \<open>
  pydantic in its default (lax) mode: a \<^verbatim>\<open>str\<close> field takes a string only; an
  \<^verbatim>\<open>int\<close> field takes an int, a bool, a float without fraction or a numeral in a string;
  a \<^verbatim>\<open>float\<close> field takes a float, an int, a bool or a numeral in a string.
\<close>

fun lax_str :: "binary64 pyval \<Rightarrow> string option" where
  "lax_str (PStr s) = Some s"
| "lax_str _ = None"

fun lax_int :: "binary64 pyval \<Rightarrow> int option" where
  "lax_int (PInt n) = Some n"
| "lax_int (PBool b) = Some (if b then 1 else 0)"
| "lax_int (PFloat x) =
     (case finite_value x of
        None \<Rightarrow> None
      | Some q \<Rightarrow> if of_int \<lfloor>q\<rfloor> = q then Some \<lfloor>q\<rfloor> else None)"
| "lax_int (PStr s) = parse_int s"
| "lax_int _ = None"

fun lax_float :: "binary64 pyval \<Rightarrow> binary64 option" where
  "lax_float (PFloat x) = Some x"
| "lax_float (PInt n) = b64_of_int n"
| "lax_float (PBool b) = Some (Finite (if b then 1 else 0))"
| "lax_float (PStr s) = parse_float s"
| "lax_float _ = None"

definition plain_email :: "string \<Rightarrow> string option" where
  \<comment> \<open>the shape \<^verbatim>\<open>local@domain.tld\<close>, without blanks\<close>
  "plain_email s =
     (let local = takeWhile (\<lambda>c. c \<noteq> CHR ''@'') s;
          dom = drop 1 (dropWhile (\<lambda>c. c \<noteq> CHR ''@'') s)
      in if local \<noteq> [] \<and> dom \<noteq> [] \<and> \<not> list_ex is_blank s \<and> \<not> list_ex (\<lambda>c. c = CHR ''@'') dom
            \<and> list_ex (\<lambda>c. c = CHR ''.'') dom \<and> hd dom \<noteq> CHR ''.'' \<and> last dom \<noteq> CHR ''.''
         then Some s else None)"

definition is_hex :: "char \<Rightarrow> bool" where
  "is_hex c = (is_digit c \<or> (97 \<le> (of_char c :: nat) \<and> (of_char c :: nat) \<le> 102)
                 \<or> (65 \<le> (of_char c :: nat) \<and> (of_char c :: nat) \<le> 70))"

definition lower_hex :: "char \<Rightarrow> char" where
  "lower_hex c =
     (if 65 \<le> (of_char c :: nat) \<and> (of_char c :: nat) \<le> 70
      then char_of ((of_char c :: nat) + 32) else c)"

definition hex_object_id :: "string \<Rightarrow> string option" where
  \<comment> \<open>24 hex digits; \<^verbatim>\<open>str\<close> of the ObjectId prints them in lower case\<close>
  "hex_object_id s =
     (if length s = 24 \<and> list_all is_hex s then Some (map lower_hex s) else None)"

fun hex_digits :: "nat \<Rightarrow> nat \<Rightarrow> string" where
  "hex_digits 0 n = []"
| "hex_digits (Suc k) n = hex_digits k (n div 16) @ [''0123456789abcdef'' ! (n mod 16)]"

definition counter_object_id :: "binary64 database \<Rightarrow> string" where
  \<comment> \<open>a fresh identifier: the number of documents already stored, as 24 hex digits\<close>
  "counter_object_id store =
     hex_digits 24 (length (db_product store) + length (db_order store))"

definition cpython :: "binary64 host" where
  "cpython =
     \<lparr>fzero = Finite 0, float_of_int = b64_of_int, float_of_str = parse_float,
      int_of_float = b64_to_int, fis_nan = (\<lambda>x. x = NaN), int_of_str = parse_int, fmul = b64_mul, fadd = b64_add,
      fsum = b64_sum, fround2 = b64_round2, fge0 = b64_ge0, as_str = lax_str,
      as_int = lax_int, as_float = lax_float, as_email = plain_email,
      ObjectId = hex_object_id, new_object_id = counter_object_id\<rparr>"

subsection \<open>The compensated \<^verbatim>\<open>sum\<close> of CPython 3.12\<close>

text \<open>
  From version 3.12 on, \<^verbatim>\<open>sum\<close> over floats carries a correction term (Neumaier's
  summation): besides the running sum \<open>t\<close> it adds up in \<open>c\<close> what each addition lost,
  and adds a finite, non-zero \<open>c\<close> at the end.
\<close>

fun b64_neg :: "binary64 \<Rightarrow> binary64" where
  "b64_neg (Finite q) = (if q = 0 then NegZero else Finite (- q))"
| "b64_neg NegZero = Finite 0"
| "b64_neg PosInf = NegInf"
| "b64_neg NegInf = PosInf"
| "b64_neg NaN = NaN"

definition b64_sub :: "binary64 \<Rightarrow> binary64 \<Rightarrow> binary64" where
  "b64_sub x y = b64_add x (b64_neg y)"

definition fabs_ge :: "binary64 \<Rightarrow> binary64 \<Rightarrow> bool" where
  \<comment> \<open>\<^verbatim>\<open>fabs(x) >= fabs(y)\<close>\<close>
  "fabs_ge x y =
     (if x = NaN \<or> y = NaN then False
      else case (finite_value x, finite_value y) of
             (Some a, Some b) \<Rightarrow> \<bar>b\<bar> \<le> \<bar>a\<bar>
           | (None, _) \<Rightarrow> True
           | (Some a, None) \<Rightarrow> False)"

definition neumaier_step :: "binary64 \<times> binary64 \<Rightarrow> binary64 \<Rightarrow> binary64 \<times> binary64" where
  "neumaier_step acc x =
     (let f = fst acc; c = snd acc; t = b64_add f x
      in (t, b64_add c (if fabs_ge f x then b64_add (b64_sub f t) x
                        else b64_add (b64_sub x t) f)))"

definition b64_sum_compensated :: "binary64 list \<Rightarrow> binary64" where
  "b64_sum_compensated xs =
     (case xs of
        [] \<Rightarrow> Finite 0
      | x # rest \<Rightarrow>
          (let acc = foldl neumaier_step (b64_add (Finite 0) x, Finite 0) rest;
               f = fst acc; c = snd acc
           in case finite_value c of
                None \<Rightarrow> f
              | Some v \<Rightarrow> if v = 0 then f else b64_add f c))"

definition cpython312 :: "binary64 host" where
  "cpython312 = cpython\<lparr>fsum := b64_sum_compensated\<rparr>"

subsection \<open>Example requests\<close>

definition address0 :: "binary64 pydict" where
  "address0 = [(''full_name'', PStr ''Ada Lovelace''), (''line1'', PStr ''12 Mill Lane''),
     (''city'', PStr ''Leeds''), (''state'', PStr ''WY''), (''postal_code'', PStr ''LS1 4AP'')]"

definition cart_item :: "string \<Rightarrow> binary64 pyval \<Rightarrow> binary64 pyval \<Rightarrow> binary64 pydict" where
  "cart_item pid pr qty = [(''product_id'', PStr pid), (''price'', pr), (''quantity'', qty)]"

definition cart0 :: "binary64 pydict list" where
  \<comment> \<open>\<^verbatim>\<open>[{price: 19.99, quantity: 2}, {price: 5.00, quantity: 3}]\<close>\<close>
  "cart0 = [cart_item ''p1'' (PFloat (b64 (1999 / 100))) (PInt 2),
            cart_item ''p2'' (PFloat (b64 5)) (PInt 3)]"

definition cart_tenths :: "binary64 pydict list" where
  \<comment> \<open>\<^verbatim>\<open>[{price: 0.1, quantity: 3}]\<close>\<close>
  "cart_tenths = [cart_item ''p1'' (PFloat (b64 (1 / 10))) (PInt 3)]"

definition cart_mixed :: "binary64 pydict list" where
  \<comment> \<open>a valid item followed by one of quantity \<^verbatim>\<open>0\<close>\<close>
  "cart_mixed = [cart_item ''p1'' (PFloat (b64 (1999 / 100))) (PInt 2),
                 cart_item ''p2'' (PFloat (b64 5)) (PInt 0)]"

definition store0 :: "binary64 database" where
  "store0 = \<lparr>db_online = True, db_product = [], db_order = []\<rparr>"

definition request :: "binary64 pydict list \<Rightarrow> string \<Rightarrow> binary64 CheckoutPayload" where
  "request cart pm = \<lparr>payload_items = cart, payload_email = Some ''ada@example.org'',
     payload_shipping_address = address0, payload_payment_method = pm\<rparr>"

definition id0 :: string where
  \<comment> \<open>the identifier of the first document of \<open>store0\<close>\<close>
  "id0 = ''000000000000000000000000''"

definition plain_item :: "string \<Rightarrow> binary64 \<Rightarrow> int \<Rightarrow> binary64 CartItem" where
  "plain_item pid pr qty =
     \<lparr>product_id = pid, quantity = qty, price = pr, title = None, variant = None,
      image' = None\<rparr>"

definition stored_order ::
  "binary64 CartItem list \<Rightarrow> binary64 \<Rightarrow> binary64 \<Rightarrow> string \<Rightarrow> binary64 Order" where
  \<comment> \<open>the order document of a request made by \<open>request\<close>, up to its items and amounts\<close>
  "stored_order cart sub tot pm =
     \<lparr>user_id = None, items = cart, subtotal = sub, shipping = Finite 0, total = tot,
      status = ''pending'', payment_method = pm, payment_status = ''pending'',
      transaction_id = None,
      shipping_address =
        \<lparr>full_name = ''Ada Lovelace'', line1 = ''12 Mill Lane'', line2 = None,
         city = ''Leeds'', state = ''WY'', postal_code = ''LS1 4AP'', country = ''US'',
         phone = None\<rparr>,
      email = Some ''ada@example.org''\<rparr>"

definition order0 :: "string \<Rightarrow> binary64 Order" where
  \<comment> \<open>what the checkout of \<open>request cart0 pm\<close> stores: subtotal and total are \<^verbatim>\<open>54.98\<close>\<close>
  "order0 pm =
     stored_order [plain_item ''p1'' (b64 (1999 / 100)) 2, plain_item ''p2'' (b64 5) 3]
       (b64 (5498 / 100)) (b64 (5498 / 100)) pm"

definition response0 :: "string \<Rightarrow> binary64 CheckoutResponse" where
  "response0 pm =
     \<lparr>order_id = id0, response_total = b64 (5498 / 100), payment = payment_stub pm id0\<rparr>"

definition order_tenths :: "binary64 Order" where
  \<comment> \<open>what the checkout of \<open>request cart_tenths ''cod''\<close> stores: the subtotal is
      \<^verbatim>\<open>0.30000000000000004\<close>, the total \<^verbatim>\<open>0.3\<close>\<close>
  "order_tenths =
     stored_order [plain_item ''p1'' (b64 (1 / 10)) 3]
       (Finite (1351079888211149 / 4503599627370496)) (b64 (3 / 10)) ''cod''"

section \<open>The reference arithmetic rounds to nearest\<close>

text \<open>
  \<open>ilog2\<close> finds the binade of a positive rational, and a finite result of \<open>round_b64\<close>
  is a multiple \<open>m * u\<close> of the spacing \<open>u\<close> of that binade with at most 53 bits in
  \<open>m\<close>, no farther from the exact value than half the spacing.
\<close>

lemma pow2_powi: "pow2 e = 2 powi e"
  unfolding pow2_def power_int_def by (simp add: power_one_over)

lemma bitlen_pos: "0 < (n :: int) \<Longrightarrow> 0 < bitlen n"
  using bitlen_eq_zero_iff [of n] bitlen_nonneg [of n] by linarith

lemma of_int_lt_powi:
  assumes "0 < (n :: int)"
  shows "(2 :: rat) powi (bitlen n - 1) \<le> of_int n \<and> (of_int n :: rat) < 2 powi (bitlen n)"
proof -
  from bitlen_bounds [OF assms] have "2 ^ nat (bitlen n - 1) \<le> n" and "n < 2 ^ nat (bitlen n)"
    by simp_all
  then have "(of_int (2 ^ nat (bitlen n - 1)) :: rat) \<le> of_int n"
    and "(of_int n :: rat) < of_int (2 ^ nat (bitlen n))"
    by (simp_all only: of_int_le_iff of_int_less_iff)
  moreover have "0 < bitlen n" using assms by (rule bitlen_pos)
  ultimately show ?thesis
    by (simp add: power_int_def)
qed

lemma ilog2_bounds:
  assumes "0 < a"
  shows "pow2 (ilog2 a) \<le> a \<and> a < pow2 (ilog2 a + 1)"
proof -
  obtain n d where q: "quotient_of a = (n, d)"
    by (cases "quotient_of a")
  then have d: "0 < d" and a: "a = of_int n / of_int d"
    using quotient_of_denom_pos quotient_of_div by blast+
  with assms have n: "0 < n"
    by (simp add: zero_less_divide_iff)
  define k where "k = bitlen n - bitlen d"
  have test1: "(2 ^ nat k * d \<le> n) \<longleftrightarrow> pow2 k \<le> a" if "0 \<le> k"
  proof -
    have "pow2 k \<le> a \<longleftrightarrow> (of_int (2 ^ nat k * d) :: rat) \<le> of_int n"
      using d that by (simp add: a pow2_def pos_le_divide_eq)
    then show ?thesis
      by (simp only: of_int_le_iff)
  qed
  have test2: "(d \<le> 2 ^ nat (- k) * n) \<longleftrightarrow> pow2 k \<le> a" if "\<not> 0 \<le> k"
  proof -
    have "pow2 k \<le> a \<longleftrightarrow> (of_int d :: rat) \<le> of_int (2 ^ nat (- k) * n)"
      using d that by (simp add: a pow2_def field_simps)
    then show ?thesis
      by (simp only: of_int_le_iff)
  qed
  have nb: "(2 :: rat) powi (bitlen n - 1) \<le> of_int n" "(of_int n :: rat) < 2 powi (bitlen n)"
    and db: "(2 :: rat) powi (bitlen d - 1) \<le> of_int d" "(of_int d :: rat) < 2 powi (bitlen d)"
    using of_int_lt_powi [OF n] of_int_lt_powi [OF d] by simp_all
  have "a < 2 powi (bitlen n) / 2 powi (bitlen d - 1)"
    unfolding a using n nb db by (intro frac_less) simp_all
  also have "\<dots> = 2 powi (k + 1)"
    by (simp add: k_def power_int_diff [symmetric] algebra_simps)
  finally have up: "a < pow2 (k + 1)"
    by (simp add: pow2_powi)
  have "(2 :: rat) powi (bitlen n - 1) / 2 powi (bitlen d) \<le> a"
    unfolding a using n d nb db by (intro frac_le) simp_all
  moreover have "(2 :: rat) powi (bitlen n - 1) / 2 powi (bitlen d) = 2 powi (k - 1)"
    by (simp add: k_def power_int_diff [symmetric] algebra_simps)
  ultimately have lo: "pow2 (k - 1) \<le> a"
    by (simp add: pow2_powi)
  have "ilog2 a = (if (if 0 \<le> k then 2 ^ nat k * d \<le> n else d \<le> 2 ^ nat (- k) * n)
      then k else k - 1)"
    unfolding ilog2_def q k_def Let_def by simp
  then have il: "ilog2 a = (if pow2 k \<le> a then k else k - 1)"
    using test1 test2 by (cases "0 \<le> k") simp_all
  show ?thesis
    using il up lo by (auto simp: not_le)
qed

lemma round_half_even_error: "\<bar>of_int (round_half_even x) - x\<bar> \<le> 1 / 2"
proof -
  have "of_int \<lfloor>x\<rfloor> \<le> x" and "x < of_int \<lfloor>x\<rfloor> + 1"
    by linarith+
  then show ?thesis
    by (auto simp: round_half_even_def Let_def abs_le_iff)
qed

lemma round_half_even_nonneg: "0 \<le> x \<Longrightarrow> 0 \<le> round_half_even x"
  by (auto simp: round_half_even_def Let_def)

lemma round_half_even_below: "x < of_int n \<Longrightarrow> round_half_even x \<le> n"
proof -
  assume "x < of_int n"
  then have "\<lfloor>x\<rfloor> < n"
    by (simp add: floor_less_iff)
  then show ?thesis
    by (auto simp: round_half_even_def Let_def)
qed

lemma pow2_pos: "0 < pow2 e"
  by (simp add: pow2_def)

lemma pow2_half: "pow2 (e - 1) = pow2 e / 2"
  by (simp add: pow2_powi power_int_diff)

lemma round_b64_finite:
  assumes "round_b64 neg a = Finite r" and "0 < a"
  defines "u \<equiv> pow2 (max (ilog2 a) (- 1022) - 52)"
  shows "\<exists>m. r = (if neg then - 1 else 1) * of_int m * u \<and> 0 \<le> m \<and> m \<le> 2 ^ 53
           \<and> \<bar>of_int m * u - a\<bar> \<le> u / 2"
proof -
  define m where "m = round_half_even (a / u)"
  have u: "0 < u"
    by (simp add: u_def pow2_pos)
  from assms(1,2) have r: "r = (if neg then - 1 else 1) * of_int m * u"
    by (auto simp: round_b64_def Let_def m_def u_def split: if_splits)
  have m0: "0 \<le> m"
    using assms(2) u by (simp add: m_def round_half_even_nonneg)
  have "\<bar>of_int m - a / u\<bar> \<le> 1 / 2"
    unfolding m_def by (rule round_half_even_error)
  then have "u * \<bar>of_int m - a / u\<bar> \<le> u * (1 / 2)"
    using u by (intro mult_left_mono) simp_all
  moreover have "u * (of_int m - a / u) = of_int m * u - a"
    using u by (simp add: algebra_simps)
  then have "u * \<bar>of_int m - a / u\<bar> = \<bar>of_int m * u - a\<bar>"
    using u by (metis abs_mult abs_of_pos)
  ultimately have err: "\<bar>of_int m * u - a\<bar> \<le> u / 2"
    by simp
  have "a < pow2 (ilog2 a + 1)"
    using ilog2_bounds [OF assms(2)] by simp
  also have "\<dots> \<le> pow2 (max (ilog2 a) (- 1022) + 1)"
    by (simp add: pow2_powi power_int_increasing)
  also have "\<dots> = 2 powi (53 + (max (ilog2 a) (- 1022) - 52))"
    by (simp add: pow2_powi add.commute)
  also have "\<dots> = 2 powi 53 * u"
    unfolding u_def pow2_powi by (rule power_int_add) simp
  finally have "a / u < of_int (2 ^ 53)"
    using u by (simp add: pos_divide_less_eq)
  then have "m \<le> 2 ^ 53"
    unfolding m_def by (rule round_half_even_below)
  with r m0 err show ?thesis
    by blast
qed

section \<open>Catalog query\<close>

lemma price_filter_cases:
  "price_filter None None = ([] :: 'f pydict)"
  "price_filter (Some lo) None = [(''$gte'', PFloat lo)]"
  "price_filter None (Some hi) = [(''$lte'', PFloat hi)]"
  "price_filter (Some lo) (Some hi) = [(''$gte'', PFloat lo), (''$lte'', PFloat hi)]"
  by (simp_all add: price_filter_def)

lemma price_filter_empty: "price_filter lo hi = [] \<longleftrightarrow> lo = None \<and> hi = None"
  by (cases lo; cases hi) (simp_all add: price_filter_cases)

lemma map_of_cond_update:
  "map_of (if b then AList.update k v d else d) k' =
     (if b \<and> k' = k then Some v else map_of d k')"
  by (simp add: update_conv')

lemma keys_cond_update:
  "set (map fst (if b then AList.update k v d else d)) \<subseteq> insert k (set (map fst d))"
  by (auto simp: dom_update)

lemma distinct_cond_update:
  "distinct (map fst d) \<Longrightarrow> distinct (map fst (if b then AList.update k v d else d))"
  by (simp add: distinct_update)

lemma query_lookup:
  "map_of (list_products_query q category size' color min_price max_price) k =
     (if truthy color \<and> k = ''variants.color'' then Some (PStr (the color))
      else if truthy size' \<and> k = ''variants.size'' then Some (PStr (the size'))
      else if price_filter min_price max_price \<noteq> [] \<and> k = ''price''
        then Some (PDict (price_filter min_price max_price))
      else if truthy category \<and> k = ''category'' then Some (PStr (the category))
      else if truthy q \<and> k = ''title''
        then Some (PDict [(''$regex'', PStr (the q)), (''$options'', PStr ''i'')])
      else if k = ''is_active'' then Some (PBool True) else None)"
  unfolding list_products_query_def Let_def map_of_cond_update by simp

lemma query_keys:
  "set (map fst (list_products_query q category size' color min_price max_price)) \<subseteq>
     {''is_active'', ''title'', ''category'', ''price'', ''variants.size'', ''variants.color''}"
  unfolding list_products_query_def Let_def
  by (intro subset_trans [OF keys_cond_update] insert_subsetI) auto

lemma query_distinct:
  "distinct (map fst (list_products_query q category size' color min_price max_price))"
  unfolding list_products_query_def Let_def
  by (intro distinct_cond_update) simp

text \<open>
  C6. The query always holds the clause \<^verbatim>\<open>is_active = True\<close>. The clause of a string
  filter (term, category, size, color) is present exactly when the parameter is a
  non-empty string, and the price clause exactly when a bound was given; there is no
  other clause and no key occurs twice, so the store reads the query as their conjunction.
\<close>

theorem query_clauses:
  "(let Q = list_products_query q category size' color min_price max_price
    in map_of Q ''is_active'' = Some (PBool True)
     \<and> map_of Q ''title'' =
         (if truthy q
          then Some (PDict [(''$regex'', PStr (the q)), (''$options'', PStr ''i'')]) else None)
     \<and> map_of Q ''category'' = (if truthy category then Some (PStr (the category)) else None)
     \<and> map_of Q ''variants.size'' = (if truthy size' then Some (PStr (the size')) else None)
     \<and> map_of Q ''variants.color'' = (if truthy color then Some (PStr (the color)) else None)
     \<and> map_of Q ''price'' =
         (if min_price = None \<and> max_price = None then None
          else Some (PDict (price_filter min_price max_price)))
     \<and> set (map fst Q) \<subseteq>
         {''is_active'', ''title'', ''category'', ''price'', ''variants.size'', ''variants.color''}
     \<and> distinct (map fst Q))"
  unfolding Let_def
  by (intro conjI query_keys query_distinct) (simp_all add: query_lookup price_filter_empty)

theorem query_clauses_witness:
  "(let Q = list_products_query (Some ''shirt'') None (Some ''M'') None (Some (Finite 10)) None
    in map_of Q ''is_active'' = Some (PBool True)
     \<and> map_of Q ''title'' = Some (PDict [(''$regex'', PStr ''shirt''), (''$options'', PStr ''i'')])
     \<and> map_of Q ''category'' = None
     \<and> map_of Q ''variants.size'' = Some (PStr ''M'')
     \<and> map_of Q ''variants.color'' = None
     \<and> map_of Q ''price'' = Some (PDict [(''$gte'', PFloat (Finite 10))]))"
  using query_clauses
    [where q = "Some ''shirt''" and category = None and size' = "Some ''M''" and color = None
       and min_price = "Some (Finite 10)" and max_price = None]
  by (simp add: Let_def truthy_def price_filter_cases)

theorem empty_term_no_clause:
  "Some '''' \<noteq> (None :: string option)
   \<and> map_of (list_products_query (Some '''') None None None None None :: binary64 pydict)
        ''title'' = None"
  by (simp add: query_lookup truthy_def price_filter_cases)

text \<open>
  C8. The two price bounds make one clause on \<^verbatim>\<open>price\<close>: \<^verbatim>\<open>$gte\<close> holds the minimum
  and \<^verbatim>\<open>$lte\<close> the maximum, each present exactly when it was given, and the clause is
  absent when neither was.
\<close>

theorem price_range_clause:
  "map_of (list_products_query q category size' color min_price max_price) ''price'' =
     (case (min_price, max_price) of
        (None, None) \<Rightarrow> None
      | (Some lo, None) \<Rightarrow> Some (PDict [(''$gte'', PFloat lo)])
      | (None, Some hi) \<Rightarrow> Some (PDict [(''$lte'', PFloat hi)])
      | (Some lo, Some hi) \<Rightarrow> Some (PDict [(''$gte'', PFloat lo), (''$lte'', PFloat hi)]))
   \<and> distinct (map fst (list_products_query q category size' color min_price max_price))"
  by (cases min_price; cases max_price)
     (simp_all add: query_lookup query_distinct price_filter_cases)

theorem price_range_clause_witness:
  "map_of (list_products_query None None None None (Some (Finite 10)) (Some (Finite 20)))
     ''price'' = Some (PDict [(''$gte'', PFloat (Finite 10)), (''$lte'', PFloat (Finite 20))])"
  using price_range_clause
    [where q = None and category = None and size' = None and color = None
       and min_price = "Some (Finite 10)" and max_price = "Some (Finite 20)"]
  by simp

text \<open>
  C9. An empty string for the term, the category, the size or the color gives the query
  of the absent parameter. A price bound is tested against \<^verbatim>\<open>None\<close> only: the bound
  \<^verbatim>\<open>0.0\<close>, like any other float, is put into the price clause.
\<close>

theorem empty_strings_and_zero_bounds:
  "list_products_query (Some '''') category size' color min_price max_price
     = list_products_query None category size' color min_price max_price
   \<and> list_products_query q (Some '''') size' color min_price max_price
     = list_products_query q None size' color min_price max_price
   \<and> list_products_query q category (Some '''') color min_price max_price
     = list_products_query q category None color min_price max_price
   \<and> list_products_query q category size' (Some '''') min_price max_price
     = list_products_query q category size' None min_price max_price
   \<and> map_of (list_products_query q category size' color (Some (fzero H)) None) ''price''
     = Some (PDict [(''$gte'', PFloat (fzero H))])
   \<and> map_of (list_products_query q category size' color None (Some (fzero H))) ''price''
     = Some (PDict [(''$lte'', PFloat (fzero H))])
   \<and> map_of (list_products_query q category size' color (Some x) (Some y)) ''price''
     = Some (PDict [(''$gte'', PFloat x), (''$lte'', PFloat y)])"
  by (intro conjI)
     (simp_all add: query_lookup price_filter_cases, simp_all add: list_products_query_def truthy_def)

theorem empty_strings_and_zero_bounds_witness:
  "list_products_query (Some '''') None None None (Some (fzero cpython)) None
     = list_products_query None None None None (Some (Finite 0)) None
   \<and> map_of (list_products_query (Some '''') None None None (Some (fzero cpython)) None) ''price''
     = Some (PDict [(''$gte'', PFloat (Finite 0))])"
proof -
  have z: "fzero cpython = Finite 0"
    by (simp add: cpython_def)
  show ?thesis
    using empty_strings_and_zero_bounds
      [where q = "Some ''''" and category = None and size' = None and color = None
         and min_price = "Some (fzero cpython)" and max_price = None and H = cpython
         and x = "Finite 0" and y = "Finite 0"]
    unfolding z by blast
qed

section \<open>Checkout\<close>

lemma py_float_error: "py_float H v = Inl e \<Longrightarrow> e \<in> {TypeError, ValueError, OverflowError}"
  by (cases v) (auto split: option.splits)

lemma py_int_error: "py_int H v = Inl e \<Longrightarrow> e \<in> {TypeError, ValueError, OverflowError}"
  by (cases v) (auto split: option.splits if_splits)

lemma line_total_error:
  "line_total H i = Inl e \<Longrightarrow> e \<in> {TypeError, ValueError, OverflowError}"
  by (auto simp: line_total_def item_price_def item_quantity_def mul_float_int_def
           split: sum.splits option.splits dest: py_float_error py_int_error)

lemma line_totals_error:
  "line_totals H its = Inl e \<Longrightarrow> e \<in> {TypeError, ValueError, OverflowError}"
proof (induction its)
  case Nil
  then show ?case by simp
next
  case (Cons i its)
  show ?case
  proof (cases "line_total H i")
    case (Inl e')
    with Cons.prems have "e = e'" by simp
    with Inl show ?thesis using line_total_error by blast
  next
    case (Inr x)
    with Cons.prems have "line_totals H its = Inl e"
      by (simp split: sum.splits)
    then show ?thesis by (rule Cons.IH)
  qed
qed

lemma checkout_subtotal_error:
  "checkout_subtotal H its = Inl e \<Longrightarrow> e \<in> {TypeError, ValueError, OverflowError}"
  by (auto simp: checkout_subtotal_def split: sum.splits dest: line_totals_error)

lemma line_total_Inr_iff:
  "line_total H i = Inr x \<longleftrightarrow>
     (\<exists>p n m. item_price H i = Inr p \<and> item_quantity H i = Inr n
        \<and> float_of_int H n = Some m \<and> x = fmul H p m)"
  by (auto simp: line_total_def mul_float_int_def split: sum.splits option.splits)

lemma line_totals_Inr_iff:
  "line_totals H its = Inr xs \<longleftrightarrow> list_all2 (\<lambda>i x. line_total H i = Inr x) its xs"
proof (induction its arbitrary: xs)
  case Nil
  show ?case by auto
next
  case (Cons i its)
  show ?case
    by (cases xs) (auto simp: Cons.IH [symmetric] split: sum.splits)
qed

lemma those_map_None: "x \<in> set xs \<Longrightarrow> f x = None \<Longrightarrow> those (map f xs) = None"
  by (induction xs) (auto split: option.splits)

lemma CartItem_validate_needs_ok:
  "\<not> quantity_price_ok H d \<Longrightarrow> CartItem_validate H d = None"
  by (auto simp: quantity_price_ok_def CartItem_validate_def bind_eq_None_conv
           split: option.splits)

lemma Order_validate_bad_item:
  assumes "i \<in> set its" and "\<not> quantity_price_ok H i"
  shows "Order_validate H its sub ship tot pm addr em = None"
proof -
  have "CartItem_validate H i = None"
    using assms(2) by (rule CartItem_validate_needs_ok)
  with assms(1) have "those (map (CartItem_validate H) its) = None"
    by (rule those_map_None)
  then show ?thesis
    by (simp add: Order_validate_def)
qed

lemma Order_validate_Some:
  assumes "Order_validate H its sub ship tot pm addr em = Some new_order"
  shows "status new_order = ''pending''" and "payment_status new_order = ''pending''"
    and "payment_method new_order = pm" and "subtotal new_order = sub"
    and "shipping new_order = ship" and "total new_order = tot"
    and "those (map (CartItem_validate H) its) = Some (items new_order)"
  using assms
  by (auto simp: Order_validate_def bind_eq_Some_conv split: if_splits)

lemma checkout_success:
  assumes "checkout H db payload = (Inr r, db')"
  shows "\<exists>store sub new_order.
           db = Some store \<and> db_online store \<and> payload_items payload \<noteq> []
         \<and> checkout_subtotal H (payload_items payload) = Inr sub
         \<and> Order_validate H (payload_items payload) sub (fzero H) (checkout_total H sub)
              (payload_payment_method payload) (payload_shipping_address payload)
              (payload_email payload) = Some new_order
         \<and> order_id r = new_object_id H store
         \<and> response_total r = checkout_total H sub
         \<and> payment r = payment_stub (payload_payment_method payload) (order_id r)
         \<and> db' = Some (store\<lparr>db_order := db_order store @ [(order_id r, new_order)]\<rparr>)"
  using assms
  by (auto simp: checkout_def create_document_def Let_def
           split: if_splits sum.splits option.splits prod.splits)

subsection \<open>The example requests\<close>

lemma checkout_request0_stripe:
  "checkout cpython (Some store0) (request cart0 ''stripe'') =
     (Inr (response0 ''stripe''), Some (store0\<lparr>db_order := [(id0, order0 ''stripe'')]\<rparr>))"
  by code_simp

lemma checkout_request0_cod:
  "checkout cpython (Some store0) (request cart0 ''cod'') =
     (Inr (response0 ''cod''), Some (store0\<lparr>db_order := [(id0, order0 ''cod'')]\<rparr>))"
  by code_simp

text \<open>
  C1. The order that a successful checkout persists has \<^verbatim>\<open>status = pending\<close>, and its
  \<^verbatim>\<open>payment_status\<close> is \<^verbatim>\<open>pending\<close> for either payment method: the constructor call
  does not pass the field, so a \<^verbatim>\<open>stripe\<close> order is stored as \<^verbatim>\<open>pending\<close> too.
\<close>

theorem persisted_order_status:
  assumes "checkout H db payload = (Inr r, db')"
  shows "\<exists>store new_order.
           db = Some store
         \<and> db' = Some (store\<lparr>db_order := db_order store @ [(order_id r, new_order)]\<rparr>)
         \<and> payment_method new_order = payload_payment_method payload
         \<and> status new_order = ''pending''
         \<and> payment_status new_order = ''pending''"
proof -
  from checkout_success [OF assms] obtain store sub new_order where
    db: "db = Some store"
    and ord: "Order_validate H (payload_items payload) sub (fzero H) (checkout_total H sub)
       (payload_payment_method payload) (payload_shipping_address payload)
       (payload_email payload) = Some new_order"
    and db': "db' = Some (store\<lparr>db_order := db_order store @ [(order_id r, new_order)]\<rparr>)"
    by blast
  from ord have "payment_method new_order = payload_payment_method payload"
    and "status new_order = ''pending''" and "payment_status new_order = ''pending''"
    by (rule Order_validate_Some)+
  with db db' show ?thesis
    by blast
qed

theorem persisted_order_status_witness:
  "checkout cpython (Some store0) (request cart0 ''stripe'')
     = (Inr (response0 ''stripe''), Some (store0\<lparr>db_order := [(id0, order0 ''stripe'')]\<rparr>))
   \<and> map_of (payment (response0 ''stripe'')) ''status'' = Some ''requires_action''
   \<and> payment_method (order0 ''stripe'') = ''stripe''
   \<and> status (order0 ''stripe'') = ''pending''
   \<and> payment_status (order0 ''stripe'') = ''pending''"
proof -
  from persisted_order_status [OF checkout_request0_stripe]
  have "payment_method (order0 ''stripe'') = payload_payment_method (request cart0 ''stripe'')
      \<and> status (order0 ''stripe'') = ''pending''
      \<and> payment_status (order0 ''stripe'') = ''pending''"
    by (auto simp: store0_def)
  moreover have "payload_payment_method (request cart0 ''stripe'') = ''stripe''"
    by (simp add: request_def)
  moreover have "map_of (payment (response0 ''stripe'')) ''status'' = Some ''requires_action''"
    by (simp add: response0_def payment_stub_def)
  ultimately show ?thesis
    using checkout_request0_stripe by simp
qed


text \<open>
  C7. After a successful checkout the payment stub of a \<^verbatim>\<open>stripe\<close> request is
  \<^verbatim>\<open>method\<close>, \<^verbatim>\<open>status = requires_action\<close> and a client secret, the literal
  \<^verbatim>\<open>cs_test_\<close> followed by the first 8 characters of the identifier of the order just
  stored; the stub of a \<^verbatim>\<open>cod\<close> request is \<^verbatim>\<open>method\<close> and \<^verbatim>\<open>status = pending\<close>, with
  no client secret. No other payment method passes the checkout.
\<close>

theorem payment_stub_of_checkout:
  assumes "checkout H db payload = (Inr r, db')"
  shows "(payload_payment_method payload = ''stripe''
            \<or> payload_payment_method payload = ''cod'')
       \<and> (payload_payment_method payload = ''stripe'' \<longrightarrow>
            payment r = [(''method'', ''stripe''), (''status'', ''requires_action''),
                         (''client_secret'', ''cs_test_'' @ take 8 (order_id r))]
          \<and> ''cs_test_'' @ take 8 (order_id r) \<noteq> [])
       \<and> (payload_payment_method payload = ''cod'' \<longrightarrow>
            payment r = [(''method'', ''cod''), (''status'', ''pending'')]
          \<and> map_of (payment r) ''client_secret'' = None)
       \<and> (\<exists>store new_order. db = Some store
            \<and> db' = Some (store\<lparr>db_order := db_order store @ [(order_id r, new_order)]\<rparr>))"
proof -
  from checkout_success [OF assms] obtain store sub new_order where
    db: "db = Some store"
    and ord: "Order_validate H (payload_items payload) sub (fzero H) (checkout_total H sub)
       (payload_payment_method payload) (payload_shipping_address payload)
       (payload_email payload) = Some new_order"
    and pay: "payment r = payment_stub (payload_payment_method payload) (order_id r)"
    and db': "db' = Some (store\<lparr>db_order := db_order store @ [(order_id r, new_order)]\<rparr>)"
    by blast
  from ord have pm: "payload_payment_method payload = ''stripe''
      \<or> payload_payment_method payload = ''cod''"
    by (auto simp: Order_validate_def bind_eq_Some_conv split: if_splits)
  have "payment_stub ''stripe'' (order_id r) =
      [(''method'', ''stripe''), (''status'', ''requires_action''),
       (''client_secret'', ''cs_test_'' @ take 8 (order_id r))]"
    by (simp add: payment_stub_def)
  moreover have "payment_stub ''cod'' (order_id r) = [(''method'', ''cod''), (''status'', ''pending'')]"
    by (simp add: payment_stub_def)
  ultimately show ?thesis
    using db db' pm pay by auto
qed

theorem payment_stub_of_checkout_witness:
  "checkout cpython (Some store0) (request cart0 ''stripe'')
     = (Inr (response0 ''stripe''), Some (store0\<lparr>db_order := [(id0, order0 ''stripe'')]\<rparr>))
   \<and> payment (response0 ''stripe'') =
       [(''method'', ''stripe''), (''status'', ''requires_action''),
        (''client_secret'', ''cs_test_00000000'')]
   \<and> checkout cpython (Some store0) (request cart0 ''cod'')
     = (Inr (response0 ''cod''), Some (store0\<lparr>db_order := [(id0, order0 ''cod'')]\<rparr>))
   \<and> payment (response0 ''cod'') = [(''method'', ''cod''), (''status'', ''pending'')]"
proof -
  have s: "payload_payment_method (request cart0 ''stripe'') = ''stripe''"
    and c: "payload_payment_method (request cart0 ''cod'') = ''cod''"
    and i: "take 8 (order_id (response0 pm)) = ''00000000''" for pm
    by (simp_all add: request_def response0_def id0_def)
  from payment_stub_of_checkout [OF checkout_request0_stripe]
  have "payment (response0 ''stripe'') =
      [(''method'', ''stripe''), (''status'', ''requires_action''),
       (''client_secret'', ''cs_test_00000000'')]"
    unfolding s i by simp
  moreover from payment_stub_of_checkout [OF checkout_request0_cod]
  have "payment (response0 ''cod'') = [(''method'', ''cod''), (''status'', ''pending'')]"
    unfolding c by simp
  ultimately show ?thesis
    using checkout_request0_stripe checkout_request0_cod by simp
qed

text \<open>
  C10. The order stored by a successful checkout keeps as \<^verbatim>\<open>subtotal\<close> the sum of the
  line amounts \<^verbatim>\<open>float(price) * int(quantity)\<close> as \<^verbatim>\<open>sum\<close> returns it; only
  \<^verbatim>\<open>total\<close> is rounded, \<^verbatim>\<open>round(subtotal + 0.0, 2)\<close>, and the response carries that total.
\<close>

theorem subtotal_raw_total_rounded:
  assumes "checkout H db payload = (Inr r, db')"
  shows "\<exists>store new_order xs.
           db = Some store
         \<and> db' = Some (store\<lparr>db_order := db_order store @ [(order_id r, new_order)]\<rparr>)
         \<and> list_all2 (\<lambda>i x. line_total H i = Inr x) (payload_items payload) xs
         \<and> subtotal new_order = fsum H xs
         \<and> total new_order = fround2 H (fadd H (fsum H xs) (fzero H))
         \<and> response_total r = total new_order"
proof -
  from checkout_success [OF assms] obtain store sub new_order where
    db: "db = Some store"
    and sub: "checkout_subtotal H (payload_items payload) = Inr sub"
    and ord: "Order_validate H (payload_items payload) sub (fzero H) (checkout_total H sub)
       (payload_payment_method payload) (payload_shipping_address payload)
       (payload_email payload) = Some new_order"
    and tot: "response_total r = checkout_total H sub"
    and db': "db' = Some (store\<lparr>db_order := db_order store @ [(order_id r, new_order)]\<rparr>)"
    by blast
  from sub obtain xs where xs: "line_totals H (payload_items payload) = Inr xs"
    and s: "sub = fsum H xs"
    by (auto simp: checkout_subtotal_def split: sum.splits)
  from xs have l: "list_all2 (\<lambda>i x. line_total H i = Inr x) (payload_items payload) xs"
    by (simp add: line_totals_Inr_iff)
  from ord have "subtotal new_order = sub" and "total new_order = checkout_total H sub"
    by (rule Order_validate_Some)+
  with s tot have "subtotal new_order = fsum H xs"
    and "total new_order = fround2 H (fadd H (fsum H xs) (fzero H))"
    and "response_total r = total new_order"
    by (simp_all add: checkout_total_def)
  with db db' l show ?thesis
    by blast
qed

lemma checkout_request_tenths:
  "checkout cpython (Some store0) (request cart_tenths ''cod'') =
     (Inr \<lparr>order_id = id0, response_total = b64 (3 / 10),
           payment = [(''method'', ''cod''), (''status'', ''pending'')]\<rparr>,
      Some (store0\<lparr>db_order := [(id0, order_tenths)]\<rparr>))"
  by code_simp

theorem subtotal_raw_total_rounded_witness:
  "checkout cpython (Some store0) (request cart_tenths ''cod'') =
     (Inr \<lparr>order_id = id0, response_total = b64 (3 / 10),
           payment = [(''method'', ''cod''), (''status'', ''pending'')]\<rparr>,
      Some (store0\<lparr>db_order := [(id0, order_tenths)]\<rparr>))
   \<and> subtotal order_tenths = Finite (1351079888211149 / 4503599627370496)
   \<and> total order_tenths = b64 (3 / 10)
   \<and> subtotal order_tenths \<noteq> total order_tenths
   \<and> total order_tenths = fround2 cpython (fadd cpython (subtotal order_tenths) (fzero cpython))"
proof -
  from subtotal_raw_total_rounded [OF checkout_request_tenths]
  obtain xs where "subtotal order_tenths = fsum cpython xs"
    and "total order_tenths = fround2 cpython (fadd cpython (fsum cpython xs) (fzero cpython))"
    by (auto simp: store0_def)
  then have "total order_tenths
      = fround2 cpython (fadd cpython (subtotal order_tenths) (fzero cpython))"
    by simp
  moreover have "subtotal order_tenths = Finite (1351079888211149 / 4503599627370496)"
    and "total order_tenths = b64 (3 / 10)"
    by (simp_all add: order_tenths_def stored_order_def)
  moreover have "Finite (1351079888211149 / 4503599627370496) \<noteq> b64 (3 / 10)"
    by code_simp
  ultimately show ?thesis
    using checkout_request_tenths by simp
qed

text \<open>
  C5. A checkout without items raises \<^verbatim>\<open>HTTPException(400, "No items")\<close> and leaves the
  store as it was, whatever the rest of the request and whatever the store.
\<close>

theorem checkout_no_items:
  "checkout H db (payload\<lparr>payload_items := []\<rparr>) = (Inl (HTTPException 400 ''No items''), db)"
  by (simp add: checkout_def)

theorem checkout_no_items_witness:
  "checkout cpython (Some store0) (request [] ''cod'')
     = (Inl (HTTPException 400 ''No items''), Some store0)"
  using checkout_no_items [of cpython "Some store0" "request [] ''cod''"]
  by (simp add: request_def)

text \<open>
  C3. When an item of the cart breaks a bound of \<^verbatim>\<open>CartItem\<close> on \<^verbatim>\<open>quantity\<close> or
  \<^verbatim>\<open>price\<close> (absent, not coercible, \<^verbatim>\<open>quantity < 1\<close> or \<^verbatim>\<open>price < 0\<close>), the checkout
  raises and the store is unchanged, whatever the other items are. The exception is
  \<^verbatim>\<open>ValidationError\<close> when line 197 computed a subtotal; otherwise it is the
  \<^verbatim>\<open>TypeError\<close>, \<^verbatim>\<open>ValueError\<close> or \<^verbatim>\<open>OverflowError\<close> that \<^verbatim>\<open>float()\<close>, \<^verbatim>\<open>int()\<close> or the
  product raised there, before the schema was consulted.
\<close>

theorem invalid_item_rejects_checkout:
  assumes "i \<in> set (payload_items payload)" and "\<not> quantity_price_ok H i"
  shows "\<exists>e. checkout H db payload = (Inl e, db)
           \<and> (case checkout_subtotal H (payload_items payload) of
                 Inl e' \<Rightarrow> e = e' \<and> e \<in> {TypeError, ValueError, OverflowError}
               | Inr sub \<Rightarrow> e = ValidationError)"
proof (cases "checkout_subtotal H (payload_items payload)")
  case (Inl e')
  moreover from assms(1) have "payload_items payload \<noteq> []"
    by auto
  ultimately have "checkout H db payload = (Inl e', db)"
    by (simp add: checkout_def)
  with Inl show ?thesis
    using checkout_subtotal_error [OF Inl] by simp
next
  case (Inr sub)
  moreover from assms(1) have "payload_items payload \<noteq> []"
    by auto
  moreover have "Order_validate H (payload_items payload) sub (fzero H) (checkout_total H sub)
       (payload_payment_method payload) (payload_shipping_address payload)
       (payload_email payload) = None"
    using assms by (rule Order_validate_bad_item)
  ultimately have "checkout H db payload = (Inl ValidationError, db)"
    by (simp add: checkout_def Let_def)
  with Inr show ?thesis
    by simp
qed

lemma cart_mixed_facts:
  "cart_item ''p2'' (PFloat (b64 5)) (PInt 0) \<in> set cart_mixed"
  "\<not> quantity_price_ok cpython (cart_item ''p2'' (PFloat (b64 5)) (PInt 0))"
  "quantity_price_ok cpython (cart_item ''p1'' (PFloat (b64 (1999 / 100))) (PInt 2))"
  "checkout_subtotal cpython cart_mixed = Inr (Finite (5626684784446013 / 140737488355328))"
  by code_simp+

theorem invalid_item_rejects_checkout_witness:
  "cart_mixed = [cart_item ''p1'' (PFloat (b64 (1999 / 100))) (PInt 2),
                 cart_item ''p2'' (PFloat (b64 5)) (PInt 0)]
   \<and> quantity_price_ok cpython (cart_item ''p1'' (PFloat (b64 (1999 / 100))) (PInt 2))
   \<and> \<not> quantity_price_ok cpython (cart_item ''p2'' (PFloat (b64 5)) (PInt 0))
   \<and> checkout cpython (Some store0) (request cart_mixed ''cod'')
       = (Inl ValidationError, Some store0)"
proof -
  have "cart_item ''p2'' (PFloat (b64 5)) (PInt 0)
      \<in> set (payload_items (request cart_mixed ''cod''))"
    using cart_mixed_facts(1) by (simp add: request_def)
  from invalid_item_rejects_checkout [OF this cart_mixed_facts(2), of "Some store0"]
  have "checkout cpython (Some store0) (request cart_mixed ''cod'')
      = (Inl ValidationError, Some store0)"
    using cart_mixed_facts(4) by (auto simp: request_def)
  then show ?thesis
    using cart_mixed_facts(2,3) by (simp add: cart_mixed_def)
qed

theorem null_price_raises_type_error:
  "\<not> quantity_price_ok cpython (cart_item ''p1'' PNone (PInt 1))
   \<and> checkout cpython (Some store0) (request [cart_item ''p1'' PNone (PInt 1)] ''cod'')
       = (Inl TypeError, Some store0)
   \<and> TypeError \<noteq> ValidationError"
  by code_simp

lemma line_total_converts:
  assumes "amounts_ok H i" and "quantity_converts H i"
  shows "\<exists>x. line_total H i = Inr x"
  using assms
  by (auto simp: amounts_ok_def quantity_converts_def line_total_def mul_float_int_def
           split: sum.splits option.splits)

lemma line_total_overflow:
  assumes "amounts_ok H i" and "\<not> quantity_converts H i"
  shows "line_total H i = Inl OverflowError"
  using assms
  by (auto simp: amounts_ok_def quantity_converts_def line_total_def mul_float_int_def
           split: sum.splits option.splits)

lemma line_totals_converts:
  "list_all (amounts_ok H) its \<Longrightarrow> list_all (quantity_converts H) its
     \<Longrightarrow> \<exists>xs. line_totals H its = Inr xs"
proof (induction its)
  case Nil
  show ?case by simp
next
  case (Cons i its)
  then obtain x xs where "line_total H i = Inr x" and "line_totals H its = Inr xs"
    using line_total_converts [of H i] by auto
  then show ?case by simp
qed

lemma line_totals_overflow:
  "list_all (amounts_ok H) its \<Longrightarrow> \<not> list_all (quantity_converts H) its
     \<Longrightarrow> line_totals H its = Inl OverflowError"
proof (induction its)
  case Nil
  then show ?case by simp
next
  case (Cons i its)
  show ?case
  proof (cases "quantity_converts H i")
    case True
    with Cons.prems obtain x where "line_total H i = Inr x"
      using line_total_converts [of H i] by auto
    moreover from True Cons have "line_totals H its = Inl OverflowError"
      by simp
    ultimately show ?thesis by simp
  next
    case False
    with Cons.prems have "line_total H i = Inl OverflowError"
      using line_total_overflow [of H i] by simp
    then show ?thesis by simp
  qed
qed

lemma ilog2_large:
  assumes "2 ^ 1024 \<le> a"
  shows "1024 \<le> ilog2 a"
proof (rule ccontr)
  assume "\<not> 1024 \<le> ilog2 a"
  then have "ilog2 a + 1 \<le> 1024"
    by simp
  then have "pow2 (ilog2 a + 1) \<le> pow2 1024"
    unfolding pow2_powi by (intro power_int_increasing) simp_all
  moreover have "0 < a"
    using assms by (rule less_le_trans [rotated]) simp
  then have "a < pow2 (ilog2 a + 1)"
    using ilog2_bounds by blast
  moreover have "pow2 1024 = 2 ^ 1024"
    by (simp add: pow2_def)
  ultimately show False
    using assms by simp
qed

lemma b64_of_int_overflow:
  assumes "2 ^ 1024 \<le> n"
  shows "b64_of_int n = None"
proof -
  have a: "(2 :: rat) ^ 1024 \<le> of_int n"
    using assms by (metis of_int_le_iff of_int_numeral of_int_power)
  then have pos: "(0 :: rat) < of_int n"
    by (rule less_le_trans [rotated]) simp
  from a have "1024 \<le> ilog2 (of_int n)"
    by (rule ilog2_large)
  with pos have "round_b64 False (of_int n) = PosInf"
    by (simp add: round_b64_def Let_def max_def)
  with pos have "b64 (of_int n) = PosInf"
    by (simp add: b64_def)
  then show ?thesis
    by (simp add: b64_of_int_def)
qed

text \<open>
  C4. Take a non-empty cart in which line 197 reads from every item a price
  \<^verbatim>\<open>float(price) >= 0\<close> and a quantity \<^verbatim>\<open>int(quantity) >= 1\<close>. When the host can convert
  every quantity to a float, the subtotal of the checkout is \<^verbatim>\<open>sum\<close> of the products
  \<^verbatim>\<open>price * quantity\<close>, and the total that the checkout hands to the order and returns is
  \<^verbatim>\<open>round(subtotal + shipping, 2)\<close> with \<^verbatim>\<open>shipping = 0.0\<close>, in the float arithmetic of
  the host. When some quantity cannot be converted, the checkout raises
  \<^verbatim>\<open>OverflowError\<close>, computes no total and writes nothing; in binary64 this is so for
  every quantity from \<^verbatim>\<open>2**1024\<close> on. The example of the claim is the witness:
  subtotal and total \<^verbatim>\<open>54.98\<close>.
\<close>

theorem checkout_total_formula:
  "(payload_items payload \<noteq> []
      \<and> list_all (amounts_ok H) (payload_items payload)
      \<and> list_all (quantity_converts H) (payload_items payload) \<longrightarrow>
    (\<exists>xs. list_all2 (\<lambda>i x. \<exists>p n m. item_price H i = Inr p \<and> item_quantity H i = Inr n
                \<and> float_of_int H n = Some m \<and> x = fmul H p m) (payload_items payload) xs
        \<and> checkout_subtotal H (payload_items payload) = Inr (fsum H xs)
        \<and> checkout H db payload =
            (let shipping = fzero H;
                 tot = fround2 H (fadd H (fsum H xs) shipping)
             in case Order_validate H (payload_items payload) (fsum H xs) shipping tot
                       (payload_payment_method payload) (payload_shipping_address payload)
                       (payload_email payload) of
                  None \<Rightarrow> (Inl ValidationError, db)
                | Some new_order \<Rightarrow>
                    (case create_document H db new_order of
                       (Inl e, db') \<Rightarrow> (Inl e, db')
                     | (Inr new_id, db') \<Rightarrow>
                         (Inr \<lparr>order_id = new_id, response_total = tot,
                               payment = payment_stub (payload_payment_method payload) new_id\<rparr>,
                          db')))))
   \<and> (list_all (amounts_ok H) (payload_items payload)
      \<and> \<not> list_all (quantity_converts H) (payload_items payload) \<longrightarrow>
        checkout_subtotal H (payload_items payload) = Inl OverflowError
      \<and> checkout H db payload = (Inl OverflowError, db))
   \<and> (2 ^ 1024 \<le> n \<longrightarrow> float_of_int cpython n = None)"
proof (intro conjI impI)
  assume ok: "payload_items payload \<noteq> []
      \<and> list_all (amounts_ok H) (payload_items payload)
      \<and> list_all (quantity_converts H) (payload_items payload)"
  then obtain xs where xs: "line_totals H (payload_items payload) = Inr xs"
    using line_totals_converts by blast
  then have l: "list_all2 (\<lambda>i x. \<exists>p n m. item_price H i = Inr p \<and> item_quantity H i = Inr n
      \<and> float_of_int H n = Some m \<and> x = fmul H p m) (payload_items payload) xs"
    by (simp add: line_totals_Inr_iff line_total_Inr_iff)
  from xs have sub: "checkout_subtotal H (payload_items payload) = Inr (fsum H xs)"
    by (simp add: checkout_subtotal_def)
  with ok have "checkout H db payload =
      (let shipping = fzero H;
           tot = fround2 H (fadd H (fsum H xs) shipping)
       in case Order_validate H (payload_items payload) (fsum H xs) shipping tot
                 (payload_payment_method payload) (payload_shipping_address payload)
                 (payload_email payload) of
            None \<Rightarrow> (Inl ValidationError, db)
          | Some new_order \<Rightarrow>
              (case create_document H db new_order of
                 (Inl e, db') \<Rightarrow> (Inl e, db')
               | (Inr new_id, db') \<Rightarrow>
                   (Inr \<lparr>order_id = new_id, response_total = tot,
                         payment = payment_stub (payload_payment_method payload) new_id\<rparr>,
                    db')))"
    by (simp add: checkout_def checkout_total_def Let_def)
  with l sub show "\<exists>xs. list_all2 (\<lambda>i x. \<exists>p n m. item_price H i = Inr p
      \<and> item_quantity H i = Inr n \<and> float_of_int H n = Some m \<and> x = fmul H p m)
        (payload_items payload) xs
    \<and> checkout_subtotal H (payload_items payload) = Inr (fsum H xs)
    \<and> checkout H db payload =
        (let shipping = fzero H;
             tot = fround2 H (fadd H (fsum H xs) shipping)
         in case Order_validate H (payload_items payload) (fsum H xs) shipping tot
                   (payload_payment_method payload) (payload_shipping_address payload)
                   (payload_email payload) of
              None \<Rightarrow> (Inl ValidationError, db)
            | Some new_order \<Rightarrow>
                (case create_document H db new_order of
                   (Inl e, db') \<Rightarrow> (Inl e, db')
                 | (Inr new_id, db') \<Rightarrow>
                     (Inr \<lparr>order_id = new_id, response_total = tot,
                           payment = payment_stub (payload_payment_method payload) new_id\<rparr>,
                      db')))"
    by blast
next
  assume bad: "list_all (amounts_ok H) (payload_items payload)
      \<and> \<not> list_all (quantity_converts H) (payload_items payload)"
  then have "line_totals H (payload_items payload) = Inl OverflowError"
    using line_totals_overflow by blast
  then show sub: "checkout_subtotal H (payload_items payload) = Inl OverflowError"
    by (simp add: checkout_subtotal_def)
  from bad have "payload_items payload \<noteq> []"
    by auto
  with sub show "checkout H db payload = (Inl OverflowError, db)"
    by (simp add: checkout_def)
next
  assume "2 ^ 1024 \<le> n"
  then show "float_of_int cpython n = None"
    by (simp add: cpython_def b64_of_int_overflow)
qed

lemma cart0_items:
  "item_price cpython (cart_item ''p1'' (PFloat (b64 (1999 / 100))) (PInt 2))
     = Inr (b64 (1999 / 100))"
  "item_quantity cpython (cart_item ''p1'' (PFloat (b64 (1999 / 100))) (PInt 2)) = Inr 2"
  "item_price cpython (cart_item ''p2'' (PFloat (b64 5)) (PInt 3)) = Inr (b64 5)"
  "item_quantity cpython (cart_item ''p2'' (PFloat (b64 5)) (PInt 3)) = Inr 3"
  "float_of_int cpython 2 = Some (Finite 2)" "float_of_int cpython 3 = Some (Finite 3)"
  by code_simp+

lemma cart0_amounts:
  "fmul cpython (b64 (1999 / 100)) (Finite 2) = Finite (5626684784446013 / 140737488355328)"
  "fmul cpython (b64 5) (Finite 3) = Finite 15"
  "fsum cpython [Finite (5626684784446013 / 140737488355328), Finite 15] = b64 (5498 / 100)"
  "fround2 cpython (fadd cpython (b64 (5498 / 100)) (fzero cpython)) = b64 (5498 / 100)"
  by code_simp+

lemma cart0_ok:
  "payload_items (request cart0 ''cod'') \<noteq> []
   \<and> list_all (amounts_ok cpython) (payload_items (request cart0 ''cod''))
   \<and> list_all (quantity_converts cpython) (payload_items (request cart0 ''cod''))"
  by code_simp

lemma huge_cart_not_ok:
  "list_all (amounts_ok cpython)
     (payload_items (request [cart_item ''p1'' (PFloat (Finite 1)) (PInt (2 ^ 1024))] ''cod''))
   \<and> \<not> list_all (quantity_converts cpython)
     (payload_items (request [cart_item ''p1'' (PFloat (Finite 1)) (PInt (2 ^ 1024))] ''cod''))"
  by code_simp

lemma order0_validates:
  "Order_validate cpython cart0 (b64 (5498 / 100)) (fzero cpython) (b64 (5498 / 100)) ''cod''
     address0 (Some ''ada@example.org'') = Some (order0 ''cod'')"
  by code_simp

lemma order0_created:
  "create_document cpython (Some store0) (order0 ''cod'')
     = (Inr id0, Some (store0\<lparr>db_order := [(id0, order0 ''cod'')]\<rparr>))"
  by code_simp

theorem checkout_total_formula_witness:
  "checkout_subtotal cpython cart0 = Inr (b64 (5498 / 100))
   \<and> checkout cpython (Some store0) (request cart0 ''cod'')
       = (Inr \<lparr>order_id = id0, response_total = b64 (5498 / 100),
                payment = payment_stub ''cod'' id0\<rparr>,
          Some (store0\<lparr>db_order := [(id0, order0 ''cod'')]\<rparr>))
   \<and> subtotal (order0 ''cod'') = b64 (5498 / 100)
   \<and> total (order0 ''cod'') = b64 (5498 / 100)
   \<and> checkout cpython (Some store0)
        (request [cart_item ''p1'' (PFloat (Finite 1)) (PInt (2 ^ 1024))] ''cod'')
       = (Inl OverflowError, Some store0)
   \<and> float_of_int cpython (2 ^ 1024) = None"
proof -
  note t = checkout_total_formula [where H = cpython and db = "Some store0"]
  have p: "payload_items (request cart0 ''cod'') = cart0"
    "payload_payment_method (request cart0 ''cod'') = ''cod''"
    "payload_shipping_address (request cart0 ''cod'') = address0"
    "payload_email (request cart0 ''cod'') = Some ''ada@example.org''"
    by (simp_all add: request_def)
  from t [where payload = "request cart0 ''cod''"] cart0_ok
  obtain xs where
    xs: "list_all2 (\<lambda>i x. \<exists>p n m. item_price cpython i = Inr p
        \<and> item_quantity cpython i = Inr n \<and> float_of_int cpython n = Some m
        \<and> x = fmul cpython p m) (payload_items (request cart0 ''cod'')) xs"
    and sub: "checkout_subtotal cpython (payload_items (request cart0 ''cod''))
        = Inr (fsum cpython xs)"
    and out: "checkout cpython (Some store0) (request cart0 ''cod'') =
        (let shipping = fzero cpython;
             tot = fround2 cpython (fadd cpython (fsum cpython xs) shipping)
         in case Order_validate cpython (payload_items (request cart0 ''cod''))
                   (fsum cpython xs) shipping tot
                   (payload_payment_method (request cart0 ''cod''))
                   (payload_shipping_address (request cart0 ''cod''))
                   (payload_email (request cart0 ''cod'')) of
              None \<Rightarrow> (Inl ValidationError, Some store0)
            | Some new_order \<Rightarrow>
                (case create_document cpython (Some store0) new_order of
                   (Inl e, db') \<Rightarrow> (Inl e, db')
                 | (Inr new_id, db') \<Rightarrow>
                     (Inr \<lparr>order_id = new_id, response_total = tot,
                           payment = payment_stub
                             (payload_payment_method (request cart0 ''cod'')) new_id\<rparr>,
                      db')))"
    by blast
  from xs have "xs = [Finite (5626684784446013 / 140737488355328), Finite 15]"
    unfolding p by (auto simp: cart0_def cart0_items cart0_amounts list_all2_Cons1)
  then have s: "fsum cpython xs = b64 (5498 / 100)"
    by (simp only: cart0_amounts)
  have "checkout_subtotal cpython cart0 = Inr (b64 (5498 / 100))"
    using sub unfolding p s .
  moreover have "checkout cpython (Some store0) (request cart0 ''cod'')
       = (Inr \<lparr>order_id = id0, response_total = b64 (5498 / 100),
                payment = payment_stub ''cod'' id0\<rparr>,
          Some (store0\<lparr>db_order := [(id0, order0 ''cod'')]\<rparr>))"
    using out
    unfolding p Let_def s cart0_amounts(4) order0_validates option.case order0_created
      prod.case sum.case .
  moreover have "subtotal (order0 ''cod'') = b64 (5498 / 100)"
    and "total (order0 ''cod'') = b64 (5498 / 100)"
    by (simp_all only: order0_def stored_order_def Order.simps)
  moreover have "checkout cpython (Some store0)
        (request [cart_item ''p1'' (PFloat (Finite 1)) (PInt (2 ^ 1024))] ''cod'')
       = (Inl OverflowError, Some store0)"
    using t [where payload = "request [cart_item ''p1'' (PFloat (Finite 1))
        (PInt (2 ^ 1024))] ''cod''"] huge_cart_not_ok by blast
  moreover have "float_of_int cpython (2 ^ 1024) = None"
    using t [where n = "2 ^ 1024"] by simp
  ultimately show ?thesis
    by (intro conjI)
qed

lemma checkout_total_example_compensated:
  \<comment> \<open>the same amounts under the compensated \<^verbatim>\<open>sum\<close>\<close>
  "checkout_subtotal cpython312 cart0 = Inr (b64 (5498 / 100))
   \<and> checkout cpython312 (Some store0) (request cart0 ''cod'')
       = (Inr \<lparr>order_id = id0, response_total = b64 (5498 / 100),
                payment = payment_stub ''cod'' id0\<rparr>,
          Some (store0\<lparr>db_order := [(id0, order0 ''cod'')]\<rparr>))"
  by code_simp

theorem huge_quantity_overflows:
  "item_price cpython (cart_item ''p1'' (PFloat (Finite 1)) (PInt (2 ^ 1024))) = Inr (Finite 1)
   \<and> fge0 cpython (Finite 1)
   \<and> item_quantity cpython (cart_item ''p1'' (PFloat (Finite 1)) (PInt (2 ^ 1024)))
       = Inr (2 ^ 1024)
   \<and> (1 :: int) \<le> 2 ^ 1024
   \<and> checkout_subtotal cpython [cart_item ''p1'' (PFloat (Finite 1)) (PInt (2 ^ 1024))]
       = Inl OverflowError
   \<and> checkout cpython (Some store0)
        (request [cart_item ''p1'' (PFloat (Finite 1)) (PInt (2 ^ 1024))] ''cod'')
       = (Inl OverflowError, Some store0)"
  by code_simp

section \<open>Product lookup\<close>

text \<open>
  C2. With a store that answers, a well-formed identifier of no product gives
  \<^verbatim>\<open>404 Not found\<close> and a malformed identifier gives \<^verbatim>\<open>400 Invalid id\<close>, two different
  errors. Without a configured store (\<^verbatim>\<open>db is None\<close>) every lookup gives the same
  \<^verbatim>\<open>404 Not found\<close>, whatever the identifier.
\<close>

theorem get_product_errors:
  "get_product H None pid = Inl (HTTPException 404 ''Not found'')
   \<and> (ObjectId H pid = None \<longrightarrow>
        get_product H (Some store) pid = Inl (HTTPException 400 ''Invalid id''))
   \<and> (db_online store \<and> ObjectId H pid = Some oid \<and> oid \<notin> fst ` set (db_product store) \<longrightarrow>
        get_product H (Some store) pid = Inl (HTTPException 404 ''Not found''))
   \<and> (db_online store \<and> ObjectId H pid = Some oid
        \<and> find (\<lambda>d. fst d = oid) (db_product store) = Some doc \<longrightarrow>
        get_product H (Some store) pid = Inr (to_public doc))
   \<and> HTTPException 404 ''Not found'' \<noteq> HTTPException 400 ''Invalid id''"
proof -
  have "find (\<lambda>d. fst d = oid) (db_product store) = None"
    if "oid \<notin> fst ` set (db_product store)"
    using that by (force simp: find_None_iff)
  then show ?thesis
    by (auto simp: get_product_def find_one_def)
qed

lemma hex_object_id_examples:
  "ObjectId cpython ''shirt-42'' = None"
  "ObjectId cpython ''64B7f0c2a1d3e4f5a6b7c8d9'' = Some ''64b7f0c2a1d3e4f5a6b7c8d9''"
  by code_simp+

theorem get_product_errors_witness:
  "get_product cpython (Some store0) ''shirt-42'' = Inl (HTTPException 400 ''Invalid id'')
   \<and> get_product cpython (Some store0) ''64B7f0c2a1d3e4f5a6b7c8d9''
       = Inl (HTTPException 404 ''Not found'')
   \<and> get_product cpython (Some (store0\<lparr>db_product :=
          [(''64b7f0c2a1d3e4f5a6b7c8d9'', [(''title'', PStr ''Linen shirt'')])]\<rparr>))
        ''64B7f0c2a1d3e4f5a6b7c8d9''
       = Inr [(''title'', PStr ''Linen shirt''), (''id'', PStr ''64b7f0c2a1d3e4f5a6b7c8d9'')]"
proof -
  have "get_product cpython (Some store0) ''shirt-42'' = Inl (HTTPException 400 ''Invalid id'')"
    using get_product_errors [of cpython "''shirt-42''" store0] hex_object_id_examples(1)
    by simp
  moreover have "get_product cpython (Some store0) ''64B7f0c2a1d3e4f5a6b7c8d9''
      = Inl (HTTPException 404 ''Not found'')"
    using get_product_errors [of cpython "''64B7f0c2a1d3e4f5a6b7c8d9''" store0
        "''64b7f0c2a1d3e4f5a6b7c8d9''"] hex_object_id_examples(2)
    by (simp add: store0_def)
  moreover have "get_product cpython (Some (store0\<lparr>db_product :=
          [(''64b7f0c2a1d3e4f5a6b7c8d9'', [(''title'', PStr ''Linen shirt'')])]\<rparr>))
        ''64B7f0c2a1d3e4f5a6b7c8d9''
      = Inr [(''title'', PStr ''Linen shirt''), (''id'', PStr ''64b7f0c2a1d3e4f5a6b7c8d9'')]"
    using get_product_errors [of cpython "''64B7f0c2a1d3e4f5a6b7c8d9''"
        "store0\<lparr>db_product :=
          [(''64b7f0c2a1d3e4f5a6b7c8d9'', [(''title'', PStr ''Linen shirt'')])]\<rparr>"
        "''64b7f0c2a1d3e4f5a6b7c8d9''"
        "(''64b7f0c2a1d3e4f5a6b7c8d9'', [(''title'', PStr ''Linen shirt'')])"]
      hex_object_id_examples(2)
    by (simp add: store0_def to_public_def)
  ultimately show ?thesis
    by simp
qed

theorem no_store_is_not_found:
  "get_product cpython None ''64b7f0c2a1d3e4f5a6b7c8d9''
     = Inl (HTTPException 404 ''Not found'')
   \<and> get_product cpython (Some store0) ''64b7f0c2a1d3e4f5a6b7c8d9''
     = Inl (HTTPException 404 ''Not found'')"
  by code_simp
end
